theory Spec2Isabelle
  imports Main "HOL-Library.Word" "HOL-Library.Char_ord" "HOL-Library.List_Lexorder"
    "HOL-Library.Multiset"
begin

unbundle bit_operations_syntax

section \<open>Basic data: bytes, fixed-width integers, times\<close>

text \<open>
  A C++ \<open>std::string\<close> is a sequence of bytes; HOL's \<open>char\<close> is exactly one byte, so
  \<open>std::string\<close> is modelled as \<open>string\<close>. The fixed-width integers of the source are
  words.
\<close>

type_synonym u8 = "8 word"
type_synonym u32 = "32 word"
type_synonym u64 = "64 word"

text \<open>
  Modelled from the spec: the templates \<open>toHeaderString(T const*)\<close> and
  \<open>readField(fields, name, required, T*)\<close> are declared in \<open>rosbag/bag.h\<close>, which is not
  among the sources. The spec (4.3) fixes them as fixed-width little-endian encoders:
  \<open>le_bytes k n\<close> is the \<open>k\<close>-byte little-endian encoding of \<open>n\<close>, \<open>le_nat\<close> reads one.
\<close>

fun le_bytes :: "nat \<Rightarrow> nat \<Rightarrow> string" where
  "le_bytes 0 n = []"
| "le_bytes (Suc k) n = char_of n # le_bytes k (n div 256)"

fun le_nat :: "string \<Rightarrow> nat" where
  "le_nat [] = 0"
| "le_nat (c # cs) = of_char c + 256 * le_nat cs"

definition toHeaderString_u8 :: "u8 \<Rightarrow> string" where
  "toHeaderString_u8 w = le_bytes 1 (unat w)"

definition toHeaderString_u32 :: "u32 \<Rightarrow> string" where
  "toHeaderString_u32 w = le_bytes 4 (unat w)"

definition toHeaderString_u64 :: "u64 \<Rightarrow> string" where
  "toHeaderString_u64 w = le_bytes 8 (unat w)"

text \<open>
  Modelled from the spec: \<open>ros::Time\<close> is declared outside the sources; the spec (3) gives
  it as \<open>(sec: u32, nsec: u32)\<close>. Its comparison operators order by \<open>sec\<close>, then \<open>nsec\<close>.
\<close>

record Time =
  sec :: u32
  nsec :: u32

definition Time_lt :: "Time \<Rightarrow> Time \<Rightarrow> bool" where
  "Time_lt a b = (sec a < sec b \<or> (sec a = sec b \<and> nsec a < nsec b))"

definition Time_gt :: "Time \<Rightarrow> Time \<Rightarrow> bool" where
  "Time_gt a b = (sec a > sec b \<or> (sec a = sec b \<and> nsec a > nsec b))"

definition Time_le :: "Time \<Rightarrow> Time \<Rightarrow> bool" where
  "Time_le a b = (sec a < sec b \<or> (sec a = sec b \<and> nsec a \<le> nsec b))"

definition Time_ge :: "Time \<Rightarrow> Time \<Rightarrow> bool" where
  "Time_ge a b = (sec a > sec b \<or> (sec a = sec b \<and> nsec a \<ge> nsec b))"

section \<open>Header fields\<close>

text \<open>
  \<open>ros::M_string\<close> is a \<open>std::map<std::string, std::string>\<close>: an association list kept
  in ascending key order, which is the order the map iterates in. \<open>M_set k v m\<close> is the
  assignment \<open>m[k] = v\<close>, \<open>map_of m k\<close> is \<open>m.find(k)\<close>.
\<close>

type_synonym ('k, 'v) std_map = "('k \<times> 'v) list"
type_synonym M_string = "(string, string) std_map"

fun M_set :: "'k::linorder \<Rightarrow> 'v \<Rightarrow> ('k, 'v) std_map \<Rightarrow> ('k, 'v) std_map" where
  "M_set k v [] = [(k, v)]"
| "M_set k v ((k', v') # m) =
     (if k < k' then (k, v) # (k', v') # m
      else if k = k' then (k, v) # m
      else (k', v') # M_set k v m)"

text \<open>
  \<open>Bag::checkField\<close> and the \<open>readField\<close> overloads. \<open>checkField\<close> returns the end
  iterator when the field is missing or its size is out of range; \<open>UINT_MAX\<close> is
  \<open>2^32 - 1\<close>.
\<close>

definition UINT_MAX :: nat where
  "UINT_MAX = 2 ^ 32 - 1"

definition checkField :: "M_string \<Rightarrow> string \<Rightarrow> nat \<Rightarrow> nat \<Rightarrow> string option" where
  "checkField flds field min_len max_len =
     (case map_of flds field of
        None \<Rightarrow> None
      | Some v \<Rightarrow> if length v < min_len \<or> length v > max_len then None else Some v)"

definition readField_range :: "M_string \<Rightarrow> string \<Rightarrow> nat \<Rightarrow> nat \<Rightarrow> string option" where
  "readField_range flds field_name min_len max_len =
     checkField flds field_name min_len max_len"

definition readField_string :: "M_string \<Rightarrow> string \<Rightarrow> string option" where
  "readField_string flds field_name = readField_range flds field_name 1 UINT_MAX"

definition readField_u8 :: "M_string \<Rightarrow> string \<Rightarrow> u8 option" where
  "readField_u8 flds field_name =
     map_option (\<lambda>v. word_of_nat (le_nat v)) (checkField flds field_name 1 1)"

definition readField_u32 :: "M_string \<Rightarrow> string \<Rightarrow> u32 option" where
  "readField_u32 flds field_name =
     map_option (\<lambda>v. word_of_nat (le_nat v)) (checkField flds field_name 4 4)"

definition readField_u64 :: "M_string \<Rightarrow> string \<Rightarrow> u64 option" where
  "readField_u64 flds field_name =
     map_option (\<lambda>v. word_of_nat (le_nat v)) (checkField flds field_name 8 8)"

text \<open>
  \<open>Bag::toHeaderString(Time const*)\<close> packs \<open>nsec\<close> into the high and \<open>sec\<close> into the low
  half of a \<open>uint64_t\<close>; \<open>Bag::readField(..., Time&)\<close> masks with \<open>(1LL << 33) - 1\<close> and
  truncates to \<open>uint32_t\<close> for \<open>sec\<close>, and shifts right by 32 for \<open>nsec\<close>.
\<close>

definition pack_time :: "Time \<Rightarrow> u64" where
  "pack_time t = push_bit 32 (ucast (nsec t) :: u64) + ucast (sec t)"

definition toHeaderString_Time :: "Time \<Rightarrow> string" where
  "toHeaderString_Time t = toHeaderString_u64 (pack_time t)"

definition unpack_time :: "u64 \<Rightarrow> Time" where
  "unpack_time packed_time =
     (let bitmask = (push_bit 33 1 - 1 :: u64)
      in \<lparr> sec = ucast (packed_time AND bitmask), nsec = ucast (drop_bit 32 packed_time) \<rparr>)"

definition readField_Time :: "M_string \<Rightarrow> string \<Rightarrow> Time option" where
  "readField_Time flds field_name =
     map_option unpack_time (readField_u64 flds field_name)"

section \<open>Data model\<close>

text \<open>
  Modelled from the spec: the structs of \<open>rosbag/bag.h\<close> (spec 3) and the constants of
  \<open>rosbag/constants.h\<close> (spec 4.3) are declared outside the sources. File positions
  (\<open>uint64_t\<close> in the source) are natural numbers: no file reaches \<open>2^64\<close> bytes. The
  32-bit quantities are words, since the source truncates to them.
\<close>

datatype CompressionType = CNone | BZ2 | ZLIB

record TopicInfo =
  ti_topic :: string
  ti_msg_def :: string
  ti_datatype :: string
  ti_md5sum :: string

record IndexEntry =
  ie_time :: Time
  ie_chunk_pos :: nat
  ie_offset :: u32

record ChunkInfo =
  ci_pos :: nat
  ci_start_time :: Time
  ci_end_time :: Time
  ci_topic_counts :: "(string, u32) std_map"

record ChunkHeader =
  ch_compression :: string
  ch_compressed_size :: u32
  ch_uncompressed_size :: u32

record MessageInfo =
  mi_topic_info :: TopicInfo
  mi_index_entry :: IndexEntry

abbreviation OP_MSG_DEF :: u8 where "OP_MSG_DEF \<equiv> 1"
abbreviation OP_MSG_DATA :: u8 where "OP_MSG_DATA \<equiv> 2"
abbreviation OP_FILE_HEADER :: u8 where "OP_FILE_HEADER \<equiv> 3"
abbreviation OP_INDEX_DATA :: u8 where "OP_INDEX_DATA \<equiv> 4"
abbreviation OP_CHUNK :: u8 where "OP_CHUNK \<equiv> 5"
abbreviation OP_CHUNK_INFO :: u8 where "OP_CHUNK_INFO \<equiv> 6"

abbreviation OP_FIELD_NAME :: string where "OP_FIELD_NAME \<equiv> ''op''"
abbreviation TOPIC_FIELD_NAME :: string where "TOPIC_FIELD_NAME \<equiv> ''topic''"
abbreviation VER_FIELD_NAME :: string where "VER_FIELD_NAME \<equiv> ''ver''"
abbreviation COUNT_FIELD_NAME :: string where "COUNT_FIELD_NAME \<equiv> ''count''"
abbreviation CHUNK_POS_FIELD_NAME :: string where "CHUNK_POS_FIELD_NAME \<equiv> ''chunk_pos''"
abbreviation START_TIME_FIELD_NAME :: string where "START_TIME_FIELD_NAME \<equiv> ''start_time''"
abbreviation END_TIME_FIELD_NAME :: string where "END_TIME_FIELD_NAME \<equiv> ''end_time''"
abbreviation COMPRESSION_FIELD_NAME :: string where "COMPRESSION_FIELD_NAME \<equiv> ''compression''"
abbreviation SIZE_FIELD_NAME :: string where "SIZE_FIELD_NAME \<equiv> ''size''"
abbreviation INDEX_POS_FIELD_NAME :: string where "INDEX_POS_FIELD_NAME \<equiv> ''index_pos''"
abbreviation TOPIC_COUNT_FIELD_NAME :: string where "TOPIC_COUNT_FIELD_NAME \<equiv> ''topic_count''"
abbreviation CHUNK_COUNT_FIELD_NAME :: string where "CHUNK_COUNT_FIELD_NAME \<equiv> ''chunk_count''"
abbreviation MD5_FIELD_NAME :: string where "MD5_FIELD_NAME \<equiv> ''md5''"
abbreviation TYPE_FIELD_NAME :: string where "TYPE_FIELD_NAME \<equiv> ''type''"
abbreviation DEF_FIELD_NAME :: string where "DEF_FIELD_NAME \<equiv> ''def''"
abbreviation LATCHING_FIELD_NAME :: string where "LATCHING_FIELD_NAME \<equiv> ''latching''"
abbreviation CALLERID_FIELD_NAME :: string where "CALLERID_FIELD_NAME \<equiv> ''callerid''"
abbreviation TIME_FIELD_NAME :: string where "TIME_FIELD_NAME \<equiv> ''time''"

abbreviation COMPRESSION_NONE :: string where "COMPRESSION_NONE \<equiv> ''none''"
abbreviation COMPRESSION_BZ2 :: string where "COMPRESSION_BZ2 \<equiv> ''bz2''"
abbreviation COMPRESSION_ZLIB :: string where "COMPRESSION_ZLIB \<equiv> ''zlib''"

abbreviation INDEX_VERSION :: u32 where "INDEX_VERSION \<equiv> 1"
abbreviation CHUNK_INFO_VERSION :: u32 where "CHUNK_INFO_VERSION \<equiv> 1"
abbreviation FILE_HEADER_LENGTH :: u32 where "FILE_HEADER_LENGTH \<equiv> 4096"

section \<open>The chunked file\<close>

text \<open>
  Modelled from the spec: \<open>ChunkedFile\<close> (spec 4.1) is not among the sources. It is a
  positioned byte stream with a compression stage on the write side: in mode \<open>CNone\<close> a
  write goes to the file at the current offset; in a compressed mode the written bytes are
  fed to the stage, and leaving the mode flushes the compressed stream to the file.
  \<open>getCompressedBytesIn\<close> counts the uncompressed bytes fed to the stage since it was
  entered. The compression primitives are a parameter.

  A read that asks for more bytes than the file holds leaves its destination
  indeterminate in the source (no caller checks it); the model stops with \<open>None\<close>
  there.
\<close>

record Codec =
  compress :: "CompressionType \<Rightarrow> string \<Rightarrow> string"
  decompress :: "CompressionType \<Rightarrow> string \<Rightarrow> nat \<Rightarrow> string"

record ChunkedFile =
  contents :: string
  fpos :: nat
  write_mode :: CompressionType
  stage :: string

definition write_at :: "string \<Rightarrow> nat \<Rightarrow> string \<Rightarrow> string" where
  "write_at cs p bs =
     (if bs = [] then cs
      else take p cs @ replicate (p - length cs) (char_of (0::nat)) @ bs @ drop (p + length bs) cs)"

definition file_write :: "string \<Rightarrow> ChunkedFile \<Rightarrow> ChunkedFile" where
  "file_write bs f =
     (if write_mode f = CNone
      then f\<lparr>contents := write_at (contents f) (fpos f) bs, fpos := fpos f + length bs\<rparr>
      else f\<lparr>stage := stage f @ bs\<rparr>)"

definition file_setWriteMode :: "Codec \<Rightarrow> CompressionType \<Rightarrow> ChunkedFile \<Rightarrow> ChunkedFile" where
  "file_setWriteMode cdc m f =
     (if m = write_mode f then f
      else if write_mode f = CNone then f\<lparr>write_mode := m, stage := []\<rparr>
      else (let z = compress cdc (write_mode f) (stage f)
            in f\<lparr>contents := write_at (contents f) (fpos f) z, fpos := fpos f + length z,
                 write_mode := m, stage := []\<rparr>))"

definition file_getCompressedBytesIn :: "ChunkedFile \<Rightarrow> u32" where
  "file_getCompressedBytesIn f = word_of_nat (length (stage f))"

definition file_read :: "nat \<Rightarrow> ChunkedFile \<Rightarrow> (string \<times> ChunkedFile) option" where
  "file_read n f =
     (if n = 0 then Some ([], f)
      else if fpos f + n \<le> length (contents f)
      then Some (take n (drop (fpos f) (contents f)), f\<lparr>fpos := fpos f + n\<rparr>)
      else None)"

section \<open>The bag\<close>

text \<open>
  The members of \<open>class Bag\<close> that the modelled functions use (the trailing underscore of
  the member names is dropped). \<open>Bag_ctor\<close> is the constructor.
\<close>

record Bag =
  bag_file :: ChunkedFile
  bag_version :: int
  bag_compression :: CompressionType
  chunk_threshold :: u32
  file_header_pos :: nat
  index_data_pos :: nat
  topic_count :: u32
  chunk_count :: u32
  chunk_open :: bool
  curr_chunk_info :: ChunkInfo
  curr_chunk_data_pos :: nat
  topic_infos :: "(string, TopicInfo) std_map"
  chunk_infos :: "ChunkInfo list"
  topic_indexes :: "(string, IndexEntry list) std_map"
  curr_chunk_topic_indexes :: "(string, IndexEntry list) std_map"
  record_buffer :: string
  decompress_buffer :: string
  decompressed_chunk :: nat
  writing_enabled :: bool

definition Time_zero :: Time where
  "Time_zero = \<lparr> sec = 0, nsec = 0 \<rparr>"

definition Bag_ctor :: Bag where
  "Bag_ctor = \<lparr>
     bag_file = \<lparr> contents = [], fpos = 0, write_mode = CNone, stage = [] \<rparr>,
     bag_version = 0,
     bag_compression = BZ2,
     chunk_threshold = 768 * 1024,
     file_header_pos = 0,
     index_data_pos = 0,
     topic_count = 0,
     chunk_count = 0,
     chunk_open = False,
     curr_chunk_info = \<lparr> ci_pos = 0, ci_start_time = Time_zero, ci_end_time = Time_zero,
                         ci_topic_counts = [] \<rparr>,
     curr_chunk_data_pos = 0,
     topic_infos = [],
     chunk_infos = [],
     topic_indexes = [],
     curr_chunk_topic_indexes = [],
     record_buffer = [],
     decompress_buffer = [],
     decompressed_chunk = 0,
     writing_enabled = True \<rparr>"

text \<open>Low-level I/O: \<open>Bag::write\<close>, \<open>Bag::read\<close>, \<open>Bag::seek\<close>.\<close>

definition Bag_write :: "string \<Rightarrow> Bag \<Rightarrow> Bag" where
  "Bag_write s b = b\<lparr>bag_file := file_write s (bag_file b)\<rparr>"

definition Bag_read :: "nat \<Rightarrow> Bag \<Rightarrow> (string \<times> Bag) option" where
  "Bag_read n b =
     (case file_read n (bag_file b) of
        None \<Rightarrow> None
      | Some (s, f) \<Rightarrow> Some (s, b\<lparr>bag_file := f\<rparr>))"

definition Bag_seek :: "nat \<Rightarrow> Bag \<Rightarrow> Bag" where
  "Bag_seek p b = b\<lparr>bag_file := (bag_file b)\<lparr>fpos := p\<rparr>\<rparr>"

definition Bag_seek_cur :: "nat \<Rightarrow> Bag \<Rightarrow> Bag" where
  "Bag_seek_cur n b = b\<lparr>bag_file := (bag_file b)\<lparr>fpos := fpos (bag_file b) + n\<rparr>\<rparr>"

definition Bag_seek_end :: "Bag \<Rightarrow> Bag" where
  "Bag_seek_end b = b\<lparr>bag_file := (bag_file b)\<lparr>fpos := length (contents (bag_file b))\<rparr>\<rparr>"

text \<open>
  \<open>write((char*) &x, 4)\<close> writes the four bytes of a \<open>uint32_t\<close> as they lie in memory:
  little-endian, as the wire format requires (spec 6).
\<close>

definition u32_bytes :: "u32 \<Rightarrow> string" where
  "u32_bytes w = le_bytes 4 (unat w)"

section \<open>Records\<close>

text \<open>
  Modelled from the spec: \<open>ros::Header::write\<close> is not among the sources. By spec 4.2 the
  header is the concatenation of the fields, in the order of the map, each a \<open>u32\<close>
  length followed by \<open>key=value\<close>.
\<close>

fun Header_write :: "M_string \<Rightarrow> string" where
  "Header_write [] = []"
| "Header_write ((k, v) # m) =
     u32_bytes (word_of_nat (length k + 1 + length v)) @ k @ ''='' @ v @ Header_write m"

text \<open>\<open>Bag::writeHeader\<close>.\<close>

definition writeHeader :: "M_string \<Rightarrow> u32 \<Rightarrow> Bag \<Rightarrow> Bag" where
  "writeHeader flds data_len b =
     (let header_buffer = Header_write flds;
          header_len = (word_of_nat (length header_buffer) :: u32);
          b1 = Bag_write (u32_bytes header_len) b;
          b2 = Bag_write (take (unat header_len) header_buffer) b1
      in Bag_write (u32_bytes data_len) b2)"

text \<open>\<open>Bag::writeFileHeaderRecord\<close>.\<close>

definition writeFileHeaderRecord :: "Bag \<Rightarrow> Bag" where
  "writeFileHeaderRecord b0 =
     (let b = b0\<lparr>topic_count := word_of_nat (length (topic_infos b0)),
                 chunk_count := word_of_nat (length (chunk_infos b0))\<rparr>;
          header = M_set CHUNK_COUNT_FIELD_NAME (toHeaderString_u32 (chunk_count b))
                  (M_set TOPIC_COUNT_FIELD_NAME (toHeaderString_u32 (topic_count b))
                  (M_set INDEX_POS_FIELD_NAME (toHeaderString_u64 (word_of_nat (index_data_pos b)))
                  (M_set OP_FIELD_NAME (toHeaderString_u8 OP_FILE_HEADER) [])));
          header_buffer = Header_write header;
          header_len = (word_of_nat (length header_buffer) :: u32);
          data_len = (if header_len < FILE_HEADER_LENGTH then FILE_HEADER_LENGTH - header_len else 0);
          b1 = Bag_write (u32_bytes header_len) b;
          b2 = Bag_write (take (unat header_len) header_buffer) b1;
          b3 = Bag_write (u32_bytes data_len) b2
      in if data_len > 0 then Bag_write (replicate (unat data_len) CHR '' '') b3 else b3)"

text \<open>
  \<open>Bag::writeTopicIndexRecords\<close>. \<open>sizeof(IndexEntry)\<close> depends on the declaration of
  the struct, which is not among the sources; it is the parameter \<open>sizeof_IndexEntry\<close>.
  The struct holds a \<open>ros::Time\<close> (two \<open>uint32_t\<close>), a \<open>uint64_t chunk_pos\<close> and a
  \<open>uint32_t offset\<close>, so its size is at least 20, and 24 with the usual alignment.
\<close>

fun writeIndexEntries :: "IndexEntry list \<Rightarrow> Bag \<Rightarrow> Bag" where
  "writeIndexEntries [] b = b"
| "writeIndexEntries (e # es) b =
     writeIndexEntries es
       (Bag_write (u32_bytes (ie_offset e))
         (Bag_write (u32_bytes (nsec (ie_time e)))
           (Bag_write (u32_bytes (sec (ie_time e))) b)))"

definition writeTopicIndexRecord :: "u32 \<Rightarrow> string \<Rightarrow> IndexEntry list \<Rightarrow> Bag \<Rightarrow> Bag" where
  "writeTopicIndexRecord sizeof_IndexEntry topic topic_index b =
     (let topic_index_size = (word_of_nat (length topic_index) :: u32);
          header = M_set COUNT_FIELD_NAME (toHeaderString_u32 topic_index_size)
                  (M_set VER_FIELD_NAME (toHeaderString_u32 INDEX_VERSION)
                  (M_set TOPIC_FIELD_NAME topic
                  (M_set OP_FIELD_NAME (toHeaderString_u8 OP_INDEX_DATA) [])));
          data_len = topic_index_size * sizeof_IndexEntry
      in writeIndexEntries topic_index (writeHeader header data_len b))"

fun writeTopicIndexRecords_loop ::
  "u32 \<Rightarrow> (string, IndexEntry list) std_map \<Rightarrow> Bag \<Rightarrow> Bag" where
  "writeTopicIndexRecords_loop sizeof_IndexEntry [] b = b"
| "writeTopicIndexRecords_loop sizeof_IndexEntry ((topic, topic_index) # rest) b =
     writeTopicIndexRecords_loop sizeof_IndexEntry rest
       (writeTopicIndexRecord sizeof_IndexEntry topic topic_index b)"

definition writeTopicIndexRecords :: "u32 \<Rightarrow> Bag \<Rightarrow> Bag" where
  "writeTopicIndexRecords sizeof_IndexEntry b =
     writeTopicIndexRecords_loop sizeof_IndexEntry (curr_chunk_topic_indexes b) b"

section \<open>The disk guard\<close>

text \<open>
  \<open>Bag::checkDisk\<close>. The outcome of \<open>statvfs\<close> is an input: \<open>None\<close> when the call
  fails, otherwise the block size and the number of available blocks. The product is taken
  in \<open>unsigned long long\<close>.
\<close>

record statvfs_data =
  f_bsize :: u64
  f_bavail :: u64

definition checkDisk :: "statvfs_data option \<Rightarrow> Bag \<Rightarrow> bool \<times> Bag" where
  "checkDisk st b =
     (case st of
        None \<Rightarrow> (True, b)
      | Some fiData \<Rightarrow>
          (let free_space = f_bsize fiData * f_bavail fiData
           in if free_space < 1073741824 then (False, b\<lparr>writing_enabled := False\<rparr>)
              else if free_space < 5368709120 then (True, b)
              else (True, b\<lparr>writing_enabled := True\<rparr>)))"

text \<open>
  \<open>Bag::checkLogging\<close> returns the flag (the throttled warning is not modelled).
\<close>

definition checkLogging :: "Bag \<Rightarrow> bool" where
  "checkLogging b = writing_enabled b"

section \<open>Specification-side notions\<close>

text \<open>
  The packed index entry of the spec (6): \<open>(u32 sec, u32 nsec, u32 offset)\<close>, twelve bytes.
\<close>

definition packed_index_entry :: "IndexEntry \<Rightarrow> string" where
  "packed_index_entry e =
     u32_bytes (sec (ie_time e)) @ u32_bytes (nsec (ie_time e)) @ u32_bytes (ie_offset e)"

text \<open>
  The record of the spec (4.2): \<open>u32\<close> header length, header, \<open>u32\<close> data length,
  data; and the compression strings (4.3).
\<close>

definition spec_record :: "M_string \<Rightarrow> string \<Rightarrow> string" where
  "spec_record flds d =
     u32_bytes (word_of_nat (length (Header_write flds))) @ Header_write flds @
     u32_bytes (word_of_nat (length d)) @ d"

definition compression_name :: "CompressionType \<Rightarrow> string" where
  "compression_name c = (case c of CNone \<Rightarrow> COMPRESSION_NONE | BZ2 \<Rightarrow> COMPRESSION_BZ2 | ZLIB \<Rightarrow> COMPRESSION_ZLIB)"

section \<open>Reading records\<close>

text \<open>
  Modelled from the spec: \<open>ros::Header::parse\<close> is not among the sources. By spec 4.2
  decoding fails if a field length is negative in the signed view or exceeds the remaining
  input, if a field has no \<open>=\<close> separator, or if a key appears twice; the key is the
  text before the first \<open>=\<close>.
\<close>

fun split_field :: "string \<Rightarrow> (string \<times> string) option" where
  "split_field [] = None"
| "split_field (c # cs) =
     (if c = CHR ''='' then Some ([], cs)
      else (case split_field cs of None \<Rightarrow> None | Some (k, v) \<Rightarrow> Some (c # k, v)))"

function Header_parse_loop :: "string \<Rightarrow> M_string \<Rightarrow> M_string option" where
  "Header_parse_loop buf acc =
     (if buf = [] then Some acc
      else if length buf < 4 then None
      else (let len = le_nat (take 4 buf)
            in if 2 ^ 31 \<le> len \<or> length buf - 4 < len then None
               else (case split_field (take len (drop 4 buf)) of
                       None \<Rightarrow> None
                     | Some (k, v) \<Rightarrow>
                         (if map_of acc k \<noteq> None then None
                          else Header_parse_loop (drop (4 + len) buf) (M_set k v acc)))))"
  by pat_completeness auto
termination
  by (relation "measure (\<lambda>(buf, acc). length buf)") auto

declare Header_parse_loop.simps [simp del]

definition Header_parse :: "string \<Rightarrow> M_string option" where
  "Header_parse buf = Header_parse_loop buf []"

text \<open>
  The reading functions return \<open>None\<close> where the source does not return a value the model
  can give: after a short read or an access out of range (indeterminate in the source), and
  after a failed assertion (abort). Otherwise they return the source's result and the new
  state of the bag.
\<close>

text \<open>\<open>Bag::readHeader\<close>: the parsed fields and the data size, or a failed parse.\<close>

definition readHeader :: "Bag \<Rightarrow> ((M_string \<times> u32) option \<times> Bag) option" where
  "readHeader b =
     (case Bag_read 4 b of
        None \<Rightarrow> None
      | Some (hl, b1) \<Rightarrow>
          (case Bag_read (le_nat hl) b1 of
             None \<Rightarrow> None
           | Some (header_buffer, b2) \<Rightarrow>
               (case Header_parse header_buffer of
                  None \<Rightarrow> Some (None, b2)
                | Some flds \<Rightarrow>
                    (case Bag_read 4 b2 of
                       None \<Rightarrow> None
                     | Some (ds, b3) \<Rightarrow> Some (Some (flds, word_of_nat (le_nat ds)), b3)))))"

text \<open>
  \<open>Bag::readHeaderFromBuffer\<close>: the fields, the data size and the number of bytes read.
  \<open>ROS_ASSERT(buffer.getSize() > 8)\<close> aborts; a \<open>memcpy\<close> from beyond the buffer is out
  of range.
\<close>

definition readHeaderFromBuffer :: "string \<Rightarrow> u32 \<Rightarrow> (M_string \<times> u32 \<times> u32) option option" where
  "readHeaderFromBuffer buffer ofs =
     (if \<not> length buffer > 8 then None
      else if length buffer < unat ofs + 4 then None
      else (let header_len = le_nat (take 4 (drop (unat ofs) buffer))
            in if length buffer < unat ofs + 4 + header_len then None
               else (case Header_parse (take header_len (drop (unat ofs + 4) buffer)) of
                       None \<Rightarrow> Some None
                     | Some flds \<Rightarrow>
                         (if length buffer < unat ofs + 4 + header_len + 4 then None
                          else Some (Some (flds,
                                 word_of_nat (le_nat (take 4 (drop (unat ofs + 4 + header_len) buffer))),
                                 word_of_nat (4 + header_len + 4)))))))"

text \<open>\<open>Bag::isOp\<close>.\<close>

definition isOp :: "M_string \<Rightarrow> u8 \<Rightarrow> bool" where
  "isOp flds reqOp = (case readField_u8 flds OP_FIELD_NAME of None \<Rightarrow> False | Some op \<Rightarrow> op = reqOp)"

text \<open>\<open>Bag::readFileHeaderRecord\<close>.\<close>

definition readFileHeaderRecord :: "Bag \<Rightarrow> (bool \<times> Bag) option" where
  "readFileHeaderRecord b =
     (case readHeader b of
        None \<Rightarrow> None
      | Some (None, b1) \<Rightarrow> Some (False, b1)
      | Some (Some (flds, data_size), b1) \<Rightarrow>
          (if \<not> isOp flds OP_FILE_HEADER then Some (False, b1)
           else (case readField_u64 flds INDEX_POS_FIELD_NAME of
                   None \<Rightarrow> Some (False, b1)
                 | Some ip \<Rightarrow>
                     (let b2 = b1\<lparr>index_data_pos := unat ip\<rparr>;
                          b3 = (if bag_version b2 \<ge> 103
                                then (let b2a = (case readField_u32 flds TOPIC_COUNT_FIELD_NAME of
                                                   None \<Rightarrow> b2 | Some n \<Rightarrow> b2\<lparr>topic_count := n\<rparr>)
                                      in (case readField_u32 flds CHUNK_COUNT_FIELD_NAME of
                                            None \<Rightarrow> b2a | Some n \<Rightarrow> b2a\<lparr>chunk_count := n\<rparr>))
                                else b2)
                      in Some (True, Bag_seek_cur (unat data_size) b3)))))"

text \<open>\<open>Bag::readMessageDefinitionRecord\<close>.\<close>

definition readMessageDefinitionRecord :: "Bag \<Rightarrow> (bool \<times> Bag) option" where
  "readMessageDefinitionRecord b =
     (case readHeader b of
        None \<Rightarrow> None
      | Some (None, b1) \<Rightarrow> Some (False, b1)
      | Some (Some (flds, data_size), b1) \<Rightarrow>
          (if \<not> isOp flds OP_MSG_DEF then Some (False, b1)
           else (case readField_string flds TOPIC_FIELD_NAME of
              None \<Rightarrow> Some (False, b1)
            | Some topic \<Rightarrow>
           (case readField_range flds MD5_FIELD_NAME 32 32 of
              None \<Rightarrow> Some (False, b1)
            | Some md5 \<Rightarrow>
           (case readField_string flds TYPE_FIELD_NAME of
              None \<Rightarrow> Some (False, b1)
            | Some dtype \<Rightarrow>
           (case readField_range flds DEF_FIELD_NAME 0 UINT_MAX of
              None \<Rightarrow> Some (False, b1)
            | Some message_definition \<Rightarrow>
                (case map_of (topic_infos b1) topic of
                   None \<Rightarrow>
                     Some (True, b1\<lparr>topic_infos :=
                        M_set topic \<lparr>ti_topic = topic, ti_msg_def = message_definition,
                                     ti_datatype = dtype, ti_md5sum = md5\<rparr> (topic_infos b1)\<rparr>)
                 | Some info \<Rightarrow> Some (True, b1))))))))"

text \<open>\<open>Bag::readChunkHeader\<close>: the chunk header, or \<open>false\<close>.\<close>

definition readChunkHeader :: "Bag \<Rightarrow> (ChunkHeader option \<times> Bag) option" where
  "readChunkHeader b =
     (case readHeader b of
        None \<Rightarrow> None
      | Some (None, b1) \<Rightarrow> Some (None, b1)
      | Some (Some (flds, data_size), b1) \<Rightarrow>
          (if \<not> isOp flds OP_CHUNK then Some (None, b1)
           else (case readField_string flds COMPRESSION_FIELD_NAME of
              None \<Rightarrow> Some (None, b1)
            | Some c \<Rightarrow>
           (case readField_u32 flds SIZE_FIELD_NAME of
              None \<Rightarrow> Some (None, b1)
            | Some us \<Rightarrow>
                Some (Some \<lparr>ch_compression = c, ch_compressed_size = data_size,
                            ch_uncompressed_size = us\<rparr>, b1)))))"

text \<open>
  \<open>Bag::readTopicIndexDataVersion0\<close>, \<open>Bag::readTopicIndexDataVersion1\<close> and
  \<open>Bag::readTopicIndexRecord\<close>. \<open>topic_indexes_[topic]\<close> creates the (empty) index when
  the topic has none. In version 1 the product \<open>count * sizeof(IndexEntry)\<close> is taken in
  \<open>size_t\<close> (64 bits).
\<close>

definition topic_index_of :: "(string, IndexEntry list) std_map \<Rightarrow> string \<Rightarrow> IndexEntry list" where
  "topic_index_of m topic = (case map_of m topic of None \<Rightarrow> [] | Some idx \<Rightarrow> idx)"

definition push_index_entry :: "string \<Rightarrow> IndexEntry \<Rightarrow> (string, IndexEntry list) std_map
    \<Rightarrow> (string, IndexEntry list) std_map" where
  "push_index_entry topic e m = M_set topic (topic_index_of m topic @ [e]) m"

fun readIndexEntriesVersion0 :: "nat \<Rightarrow> string \<Rightarrow> Bag \<Rightarrow> Bag option" where
  "readIndexEntriesVersion0 0 topic b = Some b"
| "readIndexEntriesVersion0 (Suc n) topic b =
     (case Bag_read 4 b of None \<Rightarrow> None | Some (s, b1) \<Rightarrow>
     (case Bag_read 4 b1 of None \<Rightarrow> None | Some (ns, b2) \<Rightarrow>
     (case Bag_read 8 b2 of None \<Rightarrow> None | Some (cp, b3) \<Rightarrow>
        readIndexEntriesVersion0 n topic
          (b3\<lparr>topic_indexes := push_index_entry topic
                 \<lparr>ie_time = \<lparr>sec = word_of_nat (le_nat s), nsec = word_of_nat (le_nat ns)\<rparr>,
                  ie_chunk_pos = le_nat cp, ie_offset = 0\<rparr> (topic_indexes b3)\<rparr>))))"

definition readTopicIndexDataVersion0 :: "u32 \<Rightarrow> u32 \<Rightarrow> string \<Rightarrow> Bag \<Rightarrow> (bool \<times> Bag) option" where
  "readTopicIndexDataVersion0 data_size cnt topic b =
     (case readIndexEntriesVersion0 (unat cnt) topic
             (b\<lparr>topic_indexes := M_set topic (topic_index_of (topic_indexes b) topic) (topic_indexes b)\<rparr>) of
        None \<Rightarrow> None
      | Some b' \<Rightarrow> Some (True, b'))"

fun readIndexEntriesVersion1 :: "nat \<Rightarrow> string \<Rightarrow> Bag \<Rightarrow> Bag option" where
  "readIndexEntriesVersion1 0 topic b = Some b"
| "readIndexEntriesVersion1 (Suc n) topic b =
     (case Bag_read 4 b of None \<Rightarrow> None | Some (s, b1) \<Rightarrow>
     (case Bag_read 4 b1 of None \<Rightarrow> None | Some (ns, b2) \<Rightarrow>
     (case Bag_read 4 b2 of None \<Rightarrow> None | Some (off, b3) \<Rightarrow>
        readIndexEntriesVersion1 n topic
          (b3\<lparr>topic_indexes := push_index_entry topic
                 \<lparr>ie_time = \<lparr>sec = word_of_nat (le_nat s), nsec = word_of_nat (le_nat ns)\<rparr>,
                  ie_chunk_pos = ci_pos (curr_chunk_info b3),
                  ie_offset = word_of_nat (le_nat off)\<rparr> (topic_indexes b3)\<rparr>))))"

definition readTopicIndexDataVersion1 ::
  "u32 \<Rightarrow> u32 \<Rightarrow> u32 \<Rightarrow> string \<Rightarrow> Bag \<Rightarrow> (bool \<times> Bag) option" where
  "readTopicIndexDataVersion1 sizeof_IndexEntry data_size cnt topic b =
     (if unat cnt * unat sizeof_IndexEntry \<noteq> unat data_size then Some (False, b)
      else (case readIndexEntriesVersion1 (unat cnt) topic
             (b\<lparr>topic_indexes := M_set topic (topic_index_of (topic_indexes b) topic) (topic_indexes b)\<rparr>) of
        None \<Rightarrow> None
      | Some b' \<Rightarrow> Some (True, b')))"

definition readTopicIndexRecord :: "u32 \<Rightarrow> Bag \<Rightarrow> (bool \<times> Bag) option" where
  "readTopicIndexRecord sizeof_IndexEntry b =
     (case readHeader b of
        None \<Rightarrow> None
      | Some (None, b1) \<Rightarrow> Some (False, b1)
      | Some (Some (flds, data_size), b1) \<Rightarrow>
          (if \<not> isOp flds OP_INDEX_DATA then Some (False, b1)
           else (case readField_u32 flds VER_FIELD_NAME of
              None \<Rightarrow> Some (False, b1)
            | Some index_version \<Rightarrow>
           (case readField_string flds TOPIC_FIELD_NAME of
              None \<Rightarrow> Some (False, b1)
            | Some topic \<Rightarrow>
           (case readField_u32 flds COUNT_FIELD_NAME of
              None \<Rightarrow> Some (False, b1)
            | Some cnt \<Rightarrow>
                (if index_version = 0 then readTopicIndexDataVersion0 data_size cnt topic b1
                 else if index_version = 1
                 then readTopicIndexDataVersion1 sizeof_IndexEntry data_size cnt topic b1
                 else Some (False, b1)))))))"

text \<open>
  \<open>Bag::readChunkInfoRecord\<close>. The \<open>assert\<close> on the version aborts; a topic name longer
  than the 4096 bytes of \<open>topic_name_buf\<close> overruns the buffer.
\<close>

fun readTopicCounts :: "nat \<Rightarrow> ChunkInfo \<Rightarrow> Bag \<Rightarrow> (ChunkInfo \<times> Bag) option" where
  "readTopicCounts 0 chunk_info b = Some (chunk_info, b)"
| "readTopicCounts (Suc n) chunk_info b =
     (case Bag_read 4 b of None \<Rightarrow> None | Some (tlen, b1) \<Rightarrow>
       (if le_nat tlen > 4096 then None
        else (case Bag_read (le_nat tlen) b1 of None \<Rightarrow> None | Some (topic, b2) \<Rightarrow>
             (case Bag_read 4 b2 of None \<Rightarrow> None | Some (tc, b3) \<Rightarrow>
                readTopicCounts n
                  (chunk_info\<lparr>ci_topic_counts :=
                      M_set topic (word_of_nat (le_nat tc)) (ci_topic_counts chunk_info)\<rparr>) b3))))"

definition readChunkInfoRecord :: "Bag \<Rightarrow> (bool \<times> Bag) option" where
  "readChunkInfoRecord b =
     (case readHeader b of
        None \<Rightarrow> None
      | Some (None, b1) \<Rightarrow> Some (False, b1)
      | Some (Some (flds, data_size), b1) \<Rightarrow>
          (if \<not> isOp flds OP_CHUNK_INFO then Some (False, b1)
           else (case readField_u32 flds VER_FIELD_NAME of
              None \<Rightarrow> Some (False, b1)
            | Some chunk_info_version \<Rightarrow>
           (if chunk_info_version \<noteq> CHUNK_INFO_VERSION then None
            else
           (case readField_u64 flds CHUNK_POS_FIELD_NAME of
              None \<Rightarrow> Some (False, b1)
            | Some cp \<Rightarrow>
           (case readField_Time flds START_TIME_FIELD_NAME of
              None \<Rightarrow> Some (False, b1)
            | Some st \<Rightarrow>
           (case readField_Time flds END_TIME_FIELD_NAME of
              None \<Rightarrow> Some (False, b1)
            | Some et \<Rightarrow>
           (case readField_u32 flds COUNT_FIELD_NAME of
              None \<Rightarrow> Some (False, b1)
            | Some chunk_topic_count \<Rightarrow>
                (case readTopicCounts (unat chunk_topic_count)
                        \<lparr>ci_pos = unat cp, ci_start_time = st, ci_end_time = et,
                         ci_topic_counts = []\<rparr> b1 of
                   None \<Rightarrow> None
                 | Some (chunk_info, b2) \<Rightarrow>
                     Some (True, b2\<lparr>chunk_infos := chunk_infos b2 @ [chunk_info]\<rparr>))))))))))"

section \<open>Opening a bag for reading\<close>

text \<open>
  A counted loop that returns \<open>false\<close> as soon as its body does.
\<close>

fun repeat_read :: "nat \<Rightarrow> (Bag \<Rightarrow> (bool \<times> Bag) option) \<Rightarrow> Bag \<Rightarrow> (bool \<times> Bag) option" where
  "repeat_read 0 body b = Some (True, b)"
| "repeat_read (Suc n) body b =
     (case body b of
        None \<Rightarrow> None
      | Some (ok, b') \<Rightarrow> if ok then repeat_read n body b' else Some (False, b'))"

text \<open>
  \<open>Bag::startReadingVersion103\<close>. The result of \<open>readChunkHeader\<close> is not checked in
  the loop over the chunks: when it fails the source goes on with a chunk header that is
  not set, and the model stops.
\<close>

fun readChunkIndexes :: "u32 \<Rightarrow> ChunkInfo list \<Rightarrow> Bag \<Rightarrow> (bool \<times> Bag) option" where
  "readChunkIndexes sizeof_IndexEntry [] b = Some (True, b)"
| "readChunkIndexes sizeof_IndexEntry (chunk_info # rest) b =
     (case readChunkHeader (Bag_seek (ci_pos chunk_info) (b\<lparr>curr_chunk_info := chunk_info\<rparr>)) of
        None \<Rightarrow> None
      | Some (None, b1) \<Rightarrow> None
      | Some (Some chunk_header, b1) \<Rightarrow>
          (case repeat_read (length (ci_topic_counts chunk_info))
                  (readTopicIndexRecord sizeof_IndexEntry)
                  (Bag_seek_cur (unat (ch_compressed_size chunk_header)) b1) of
             None \<Rightarrow> None
           | Some (ok, b2) \<Rightarrow>
               if ok then readChunkIndexes sizeof_IndexEntry rest b2 else Some (False, b2)))"

definition startReadingVersion103 :: "u32 \<Rightarrow> Bag \<Rightarrow> (bool \<times> Bag) option" where
  "startReadingVersion103 sizeof_IndexEntry b =
     (case readFileHeaderRecord b of
        None \<Rightarrow> None
      | Some (ok, b1) \<Rightarrow>
          if \<not> ok then Some (False, b1)
          else (case repeat_read (unat (topic_count b1)) readMessageDefinitionRecord
                       (Bag_seek (index_data_pos b1) b1) of
                  None \<Rightarrow> None
                | Some (ok2, b2) \<Rightarrow>
                    if \<not> ok2 then Some (False, b2)
                    else (case repeat_read (unat (chunk_count b2)) readChunkInfoRecord b2 of
                            None \<Rightarrow> None
                          | Some (ok3, b3) \<Rightarrow>
                              if \<not> ok3 then Some (False, b3)
                              else readChunkIndexes sizeof_IndexEntry (chunk_infos b3) b3)))"

text \<open>
  \<open>Bag::readVersion\<close>. \<open>file_.getline()\<close> reads through the next newline.
  \<open>scan_version\<close> is \<open>sscanf(line, "#ROS%s V%d.%d", ...)\<close>: the literal \<open>#ROS\<close>, a
  word, white space, \<open>V\<close>, and two decimal integers separated by a dot. When the line does
  not match, the integers stay unset and the version is indeterminate.
\<close>

definition isspace :: "char \<Rightarrow> bool" where
  "isspace c = (c \<in> set [CHR '' '', CHR 0x09, CHR 0x0A, CHR 0x0B, CHR 0x0C, CHR 0x0D])"

definition isdigit :: "char \<Rightarrow> bool" where
  "isdigit c = (48 \<le> (of_char c :: nat) \<and> (of_char c :: nat) \<le> 57)"

fun digits_value :: "int \<Rightarrow> string \<Rightarrow> int" where
  "digits_value acc [] = acc"
| "digits_value acc (c # cs) = digits_value (10 * acc + (int (of_char c) - 48)) cs"

definition scan_int :: "string \<Rightarrow> (int \<times> string) option" where
  "scan_int s =
     (let s1 = dropWhile isspace s;
          neg = (s1 \<noteq> [] \<and> hd s1 = CHR ''-'');
          s2 = (if s1 \<noteq> [] \<and> (hd s1 = CHR ''-'' \<or> hd s1 = CHR ''+'') then tl s1 else s1);
          ds = takeWhile isdigit s2
      in if ds = [] then None
         else Some ((if neg then - digits_value 0 ds else digits_value 0 ds), dropWhile isdigit s2))"

definition scan_version :: "string \<Rightarrow> (int \<times> int) option" where
  "scan_version line =
     (if take 4 line \<noteq> ''#ROS'' then None
      else (let s1 = dropWhile isspace (drop 4 line);
                s2 = dropWhile (\<lambda>c. \<not> isspace c) s1;
                s3 = dropWhile isspace s2
            in if takeWhile (\<lambda>c. \<not> isspace c) s1 = [] then None
               else if s3 = [] \<or> hd s3 \<noteq> CHR ''V'' then None
               else (case scan_int (tl s3) of
                       None \<Rightarrow> None
                     | Some (version_major, s4) \<Rightarrow>
                         (if s4 = [] \<or> hd s4 \<noteq> CHR ''.'' then None
                          else (case scan_int (tl s4) of
                                  None \<Rightarrow> None
                                | Some (version_minor, s5) \<Rightarrow> Some (version_major, version_minor))))))"

definition file_getline :: "ChunkedFile \<Rightarrow> string \<times> ChunkedFile" where
  "file_getline f =
     (let rest = drop (fpos f) (contents f);
          line = takeWhile (\<lambda>c. c \<noteq> CHR 0x0A) rest
      in (line, f\<lparr>fpos := min (length (contents f)) (fpos f + length line + 1)\<rparr>))"

definition readVersion :: "Bag \<Rightarrow> (bool \<times> Bag) option" where
  "readVersion b =
     (let (version_line, f) = file_getline (bag_file b);
          b1 = b\<lparr>bag_file := f, file_header_pos := fpos f\<rparr>
      in (case scan_version version_line of
            None \<Rightarrow> None
          | Some (version_major, version_minor) \<Rightarrow>
              (let major = (if version_major = 0 \<and> version_line \<noteq> [] \<and> hd version_line = CHR ''#''
                            then 1 else version_major)
               in Some (True, b1\<lparr>bag_version := major * 100 + version_minor\<rparr>))))"

text \<open>
  \<open>Bag::openRead\<close>, from the point where the file has been opened successfully on the
  given contents. Version 1.02 is handled by \<open>startReadingVersion102\<close>, which is a
  parameter here.
\<close>

definition openRead ::
  "u32 \<Rightarrow> (Bag \<Rightarrow> (bool \<times> Bag) option) \<Rightarrow> string \<Rightarrow> Bag \<Rightarrow> (bool \<times> Bag) option" where
  "openRead sizeof_IndexEntry startReadingVersion102 file_contents b =
     (case readVersion (b\<lparr>bag_file := \<lparr>contents = file_contents, fpos = 0,
                                         write_mode = CNone, stage = []\<rparr>\<rparr>) of
        None \<Rightarrow> None
      | Some (ok, b1) \<Rightarrow>
          if \<not> ok then Some (False, b1)
          else if bag_version b1 = 102 then startReadingVersion102 b1
          else if bag_version b1 = 103 then startReadingVersion103 sizeof_IndexEntry b1
          else Some (False, b1))"

section \<open>Random access to a message\<close>

text \<open>\<open>Bag::decompressChunk\<close>.\<close>

definition decompressChunk :: "Codec \<Rightarrow> nat \<Rightarrow> Bag \<Rightarrow> (bool \<times> Bag) option" where
  "decompressChunk cdc chunk_pos b =
     (if decompressed_chunk b = chunk_pos then Some (True, b)
      else (case readChunkHeader (Bag_seek chunk_pos b) of
              None \<Rightarrow> None
            | Some (None, b1) \<Rightarrow> Some (False, b1)
            | Some (Some chunk_header, b1) \<Rightarrow>
                (if ch_compression chunk_header \<noteq> COMPRESSION_NONE
                    \<and> ch_compression chunk_header \<noteq> COMPRESSION_BZ2
                    \<and> ch_compression chunk_header \<noteq> COMPRESSION_ZLIB
                 then Some (False, b1)
                 else (let c = (if ch_compression chunk_header = COMPRESSION_NONE then CNone
                                else if ch_compression chunk_header = COMPRESSION_BZ2 then BZ2
                                else ZLIB)
                       in if c = CNone then Some (True, b1)
                          else (case Bag_read (unat (ch_compressed_size chunk_header)) b1 of
                                  None \<Rightarrow> None
                                | Some (chunk_buffer, b2) \<Rightarrow>
                                    Some (True, b2\<lparr>decompress_buffer :=
                                              decompress cdc c chunk_buffer
                                                (unat (ch_uncompressed_size chunk_header)),
                                            decompressed_chunk := chunk_pos\<rparr>))))))"

text \<open>
  The two \<open>do ... while (op == OP_MSG_DEF)\<close> loops of \<open>Bag::readMessageDataRecord103\<close>:
  over the decompressed buffer and over the file. Each returns the header of the first
  record that is not a MSG_DEF, its data size, its opcode, and where its data starts.
  The buffer has a 32-bit size.
\<close>

function skip_defs_buffer :: "string \<Rightarrow> u32 \<Rightarrow> (M_string \<times> u32 \<times> u8 \<times> u32) option option" where
  "skip_defs_buffer buffer ofs =
     (if length buffer \<ge> 2 ^ 32 then None
      else (case readHeaderFromBuffer buffer ofs of
        None \<Rightarrow> None
      | Some None \<Rightarrow> Some None
      | Some (Some (flds, data_size, bytes_read)) \<Rightarrow>
          (case readField_u8 flds OP_FIELD_NAME of
             None \<Rightarrow> Some None
           | Some op \<Rightarrow>
               if op = OP_MSG_DEF then skip_defs_buffer buffer (ofs + bytes_read)
               else Some (Some (flds, data_size, op, ofs + bytes_read)))))"
  by pat_completeness auto
termination
proof (relation "measure (\<lambda>(buffer, ofs). length buffer - unat ofs)")
  show "wf (measure (\<lambda>(buffer, ofs). length buffer - unat ofs))"
    by simp
next
  fix buffer :: string and ofs :: u32 and x2 x2a flds x2b data_size bytes_read x2c
  assume big: "\<not> 2 ^ 32 \<le> length buffer"
    and rd: "readHeaderFromBuffer buffer ofs = Some x2" "x2 = Some x2a"
      "(flds, x2b) = x2a" "(data_size, bytes_read) = x2b"
  from rd have r: "readHeaderFromBuffer buffer ofs = Some (Some (flds, data_size, bytes_read))"
    by auto
  define n where "n = 4 + le_nat (take 4 (drop (unat ofs) buffer)) + 4"
  from r have br: "bytes_read = word_of_nat n"
    and inr: "unat ofs + n \<le> length buffer"
    by (auto simp add: readHeaderFromBuffer_def Let_def n_def split: if_splits option.splits)
  from inr big have lt: "unat ofs + n < 2 ^ 32"
    by simp
  then have "n mod 2 ^ 32 = n"
    by simp
  moreover have "unat (word_of_nat n :: u32) = n mod 2 ^ 32"
    by (simp add: unat_of_nat)
  ultimately have "unat (word_of_nat n :: u32) = n"
    by simp
  with lt have "unat (ofs + bytes_read) = unat ofs + n"
    unfolding br by (simp add: unat_add_lem [THEN iffD1])
  moreover have "0 < n"
    by (simp add: n_def)
  ultimately show "((buffer, ofs + bytes_read), (buffer, ofs))
      \<in> measure (\<lambda>(buffer, ofs). length buffer - unat ofs)"
    using inr by simp
qed

declare skip_defs_buffer.simps [simp del]

function skip_defs_file :: "Bag \<Rightarrow> ((M_string \<times> u32 \<times> u8) option \<times> Bag) option" where
  "skip_defs_file b =
     (case readHeader b of
        None \<Rightarrow> None
      | Some (None, b1) \<Rightarrow> Some (None, b1)
      | Some (Some (flds, data_size), b1) \<Rightarrow>
          (case readField_u8 flds OP_FIELD_NAME of
             None \<Rightarrow> Some (None, b1)
           | Some op \<Rightarrow>
               if op = OP_MSG_DEF then skip_defs_file b1
               else Some (Some (flds, data_size, op), b1)))"
  by pat_completeness auto
termination
proof (relation "measure (\<lambda>b. length (contents (bag_file b)) - fpos (bag_file b))")
  show "wf (measure (\<lambda>b. length (contents (bag_file b)) - fpos (bag_file b)))"
    by simp
next
  fix b :: Bag and x2 x1 b1 x2a flds data_size x2b
  assume "readHeader b = Some x2" "(x1, b1) = x2" "x1 = Some x2a" "(flds, data_size) = x2a"
  then have "readHeader b = Some (Some (flds, data_size), b1)"
    by auto
  then have "contents (bag_file b1) = contents (bag_file b)
      \<and> fpos (bag_file b) + 8 \<le> fpos (bag_file b1)
      \<and> fpos (bag_file b1) \<le> length (contents (bag_file b))"
    by (auto simp add: readHeader_def Bag_read_def file_read_def
        split: option.splits if_splits prod.splits)
  then show "(b1, b) \<in> measure (\<lambda>b. length (contents (bag_file b)) - fpos (bag_file b))"
    by auto
qed

declare skip_defs_file.simps [simp del]

text \<open>\<open>Bag::readMessageDataRecord103\<close>.\<close>

definition readMessageDataRecord103 ::
  "Codec \<Rightarrow> string \<Rightarrow> nat \<Rightarrow> u32 \<Rightarrow> Bag \<Rightarrow> (bool \<times> Bag) option" where
  "readMessageDataRecord103 cdc topic chunk_pos ofs b =
     (case (if decompressed_chunk b \<noteq> chunk_pos
            then (case readChunkHeader (Bag_seek chunk_pos b) of
                    None \<Rightarrow> None
                  | Some (None, b1) \<Rightarrow> Some (False, b1)
                  | Some (Some chunk_header, b1) \<Rightarrow>
                      (if ch_compression chunk_header = COMPRESSION_BZ2
                       then (case decompressChunk cdc chunk_pos b1 of
                               None \<Rightarrow> None
                             | Some (ok, b2) \<Rightarrow> Some (True, b2))
                       else Some (True, b1)))
            else Some (True, b)) of
        None \<Rightarrow> None
      | Some (go_on, b1) \<Rightarrow>
          if \<not> go_on then Some (False, b1)
          else if decompressed_chunk b1 = chunk_pos
          then (case skip_defs_buffer (decompress_buffer b1) ofs of
                  None \<Rightarrow> None
                | Some None \<Rightarrow> Some (False, b1)
                | Some (Some (flds, data_size, op, ofs')) \<Rightarrow>
                    (if op \<noteq> OP_MSG_DATA then None
                     else (case readField_string flds TOPIC_FIELD_NAME of
                             None \<Rightarrow> Some (False, b1)
                           | Some msg_topic \<Rightarrow>
                               (if topic \<noteq> msg_topic then None
                                else if length (decompress_buffer b1) < unat ofs' + unat data_size
                                then None
                                else Some (True, b1\<lparr>record_buffer :=
                                        take (unat data_size)
                                          (drop (unat ofs') (decompress_buffer b1))\<rparr>)))))
          else (case skip_defs_file (Bag_seek_cur (unat ofs) b1) of
                  None \<Rightarrow> None
                | Some (None, b2) \<Rightarrow> Some (False, b2)
                | Some (Some (flds, data_size, op), b2) \<Rightarrow>
                    (if op \<noteq> OP_MSG_DATA then None
                     else (case readField_string flds TOPIC_FIELD_NAME of
                             None \<Rightarrow> Some (False, b2)
                           | Some msg_topic \<Rightarrow>
                               (if topic \<noteq> msg_topic then None
                                else (case Bag_read (unat data_size) b2 of
                                        None \<Rightarrow> None
                                      | Some (d, b3) \<Rightarrow>
                                          Some (True, b3\<lparr>record_buffer := d\<rparr>)))))))"

section \<open>Queries\<close>

text \<open>\<open>Bag::getMessages\<close>: the loop over \<open>topic_infos_\<close> and the loop over one index.\<close>

fun getMessages_entries ::
  "TopicInfo \<Rightarrow> Time \<Rightarrow> Time \<Rightarrow> IndexEntry list \<Rightarrow> MessageInfo list \<Rightarrow> MessageInfo list" where
  "getMessages_entries info start_time end_time [] messages = messages"
| "getMessages_entries info start_time end_time (entry # rest) messages =
     getMessages_entries info start_time end_time rest
       (if Time_ge (ie_time entry) start_time \<and> Time_le (ie_time entry) end_time
        then messages @ [\<lparr>mi_topic_info = info, mi_index_entry = entry\<rparr>]
        else messages)"

fun getMessages_topics ::
  "(string, IndexEntry list) std_map \<Rightarrow> Time \<Rightarrow> Time \<Rightarrow> (string, TopicInfo) std_map
     \<Rightarrow> MessageInfo list \<Rightarrow> MessageInfo list" where
  "getMessages_topics idxs start_time end_time [] messages = messages"
| "getMessages_topics idxs start_time end_time ((topic, info) # rest) messages =
     getMessages_topics idxs start_time end_time rest
       (case map_of idxs topic of
          None \<Rightarrow> messages
        | Some topic_index \<Rightarrow> getMessages_entries info start_time end_time topic_index messages)"

definition getMessages :: "Bag \<Rightarrow> Time \<Rightarrow> Time \<Rightarrow> MessageInfo list" where
  "getMessages b start_time end_time =
     getMessages_topics (topic_indexes b) start_time end_time (topic_infos b) []"

section \<open>Writing a bag\<close>

text \<open>
  Modelled from the spec: \<open>ros::Message\<close> is outside the sources; by spec 9 the engine
  uses its schema text, type name, content hash, connection header and serialized bytes.
\<close>

record Message =
  msg_definition :: string
  msg_datatype :: string
  msg_md5sum :: string
  msg_connection_header :: "M_string option"
  msg_serialized :: string

abbreviation VERSION :: string where "VERSION \<equiv> ''1.3''"

text \<open>\<open>Bag::getChunkOffset\<close>, truncated to \<open>uint32_t\<close> as in the source.\<close>

definition getChunkOffset :: "Bag \<Rightarrow> u32" where
  "getChunkOffset b =
     (if bag_compression b = CNone
      then word_of_nat (fpos (bag_file b)) - word_of_nat (curr_chunk_data_pos b)
      else file_getCompressedBytesIn (bag_file b))"

text \<open>\<open>Bag::writeChunkHeader\<close>.\<close>

definition writeChunkHeader :: "CompressionType \<Rightarrow> u32 \<Rightarrow> u32 \<Rightarrow> Bag \<Rightarrow> Bag" where
  "writeChunkHeader c compressed_size uncompressed_size b =
     (let chunk_header = \<lparr>ch_compression = (case c of CNone \<Rightarrow> COMPRESSION_NONE
                                                | BZ2 \<Rightarrow> COMPRESSION_BZ2
                                                | ZLIB \<Rightarrow> COMPRESSION_ZLIB),
                          ch_compressed_size = compressed_size,
                          ch_uncompressed_size = uncompressed_size\<rparr>;
          header = M_set SIZE_FIELD_NAME (toHeaderString_u32 (ch_uncompressed_size chunk_header))
                  (M_set COMPRESSION_FIELD_NAME (ch_compression chunk_header)
                  (M_set OP_FIELD_NAME (toHeaderString_u8 OP_CHUNK) []))
      in writeHeader header (ch_compressed_size chunk_header) b)"

text \<open>\<open>Bag::startWritingChunk\<close>.\<close>

definition startWritingChunk :: "Codec \<Rightarrow> Time \<Rightarrow> Bag \<Rightarrow> Bag" where
  "startWritingChunk cdc t b =
     (let b1 = b\<lparr>curr_chunk_info := (curr_chunk_info b)\<lparr>ci_pos := fpos (bag_file b),
                      ci_start_time := t, ci_end_time := t\<rparr>\<rparr>;
          b2 = writeChunkHeader (bag_compression b1) 0 0 b1;
          b3 = b2\<lparr>bag_file := file_setWriteMode cdc (bag_compression b2) (bag_file b2)\<rparr>
      in b3\<lparr>curr_chunk_data_pos := fpos (bag_file b3), chunk_open := True\<rparr>)"

text \<open>\<open>Bag::stopWritingChunk\<close>.\<close>

fun add_to_topic_index :: "string \<Rightarrow> IndexEntry list \<Rightarrow> (string, IndexEntry list) std_map
    \<Rightarrow> (string, IndexEntry list) std_map" where
  "add_to_topic_index topic [] m = m"
| "add_to_topic_index topic (e # es) m = add_to_topic_index topic es (push_index_entry topic e m)"

fun add_chunk_to_index :: "(string, IndexEntry list) std_map \<Rightarrow> (string, IndexEntry list) std_map
    \<Rightarrow> (string, IndexEntry list) std_map" where
  "add_chunk_to_index [] m = m"
| "add_chunk_to_index ((topic, es) # rest) m = add_chunk_to_index rest (add_to_topic_index topic es m)"

definition stopWritingChunk :: "Codec \<Rightarrow> u32 \<Rightarrow> Bag \<Rightarrow> Bag" where
  "stopWritingChunk cdc sizeof_IndexEntry b =
     (let b1 = b\<lparr>chunk_infos := chunk_infos b @ [curr_chunk_info b]\<rparr>;
          b2 = b1\<lparr>topic_indexes := add_chunk_to_index (curr_chunk_topic_indexes b1) (topic_indexes b1)\<rparr>;
          uncompressed_size = getChunkOffset b2;
          b3 = b2\<lparr>bag_file := file_setWriteMode cdc CNone (bag_file b2)\<rparr>;
          compressed_size = (word_of_nat (fpos (bag_file b3)) - word_of_nat (curr_chunk_data_pos b3) :: u32);
          end_of_chunk_pos = fpos (bag_file b3);
          b4 = Bag_seek (ci_pos (curr_chunk_info b3)) b3;
          b5 = writeChunkHeader (bag_compression b4) compressed_size uncompressed_size b4;
          b6 = Bag_seek end_of_chunk_pos b5;
          b7 = writeTopicIndexRecords sizeof_IndexEntry b6
      in b7\<lparr>curr_chunk_topic_indexes := [], chunk_open := False\<rparr>)"

text \<open>\<open>Bag::writeMessageDefinitionRecord\<close> and \<open>Bag::writeMessageDefinitionRecords\<close>.\<close>

definition writeMessageDefinitionRecord :: "TopicInfo \<Rightarrow> Bag \<Rightarrow> Bag" where
  "writeMessageDefinitionRecord topic_info b =
     (let header = M_set DEF_FIELD_NAME (ti_msg_def topic_info)
                  (M_set TYPE_FIELD_NAME (ti_datatype topic_info)
                  (M_set MD5_FIELD_NAME (ti_md5sum topic_info)
                  (M_set TOPIC_FIELD_NAME (ti_topic topic_info)
                  (M_set OP_FIELD_NAME (toHeaderString_u8 OP_MSG_DEF) []))))
      in writeHeader header 0 b)"

fun writeMessageDefinitionRecords_loop :: "(string, TopicInfo) std_map \<Rightarrow> Bag \<Rightarrow> Bag" where
  "writeMessageDefinitionRecords_loop [] b = b"
| "writeMessageDefinitionRecords_loop ((topic, topic_info) # rest) b =
     writeMessageDefinitionRecords_loop rest (writeMessageDefinitionRecord topic_info b)"

definition writeMessageDefinitionRecords :: "Bag \<Rightarrow> Bag" where
  "writeMessageDefinitionRecords b = writeMessageDefinitionRecords_loop (topic_infos b) b"

text \<open>\<open>Bag::writeMessageDataRecord\<close>.\<close>

definition writeMessageDataRecord :: "string \<Rightarrow> Time \<Rightarrow> bool \<Rightarrow> string \<Rightarrow> Message \<Rightarrow> Bag \<Rightarrow> Bag" where
  "writeMessageDataRecord topic t latching callerid msg b =
     (let header0 = M_set TIME_FIELD_NAME (toHeaderString_Time t)
                   (M_set TOPIC_FIELD_NAME topic
                   (M_set OP_FIELD_NAME (toHeaderString_u8 OP_MSG_DATA) []));
          header = (if latching
                    then M_set CALLERID_FIELD_NAME callerid (M_set LATCHING_FIELD_NAME ''1'' header0)
                    else header0);
          msg_ser_len = (word_of_nat (length (msg_serialized msg)) :: u32);
          b1 = b\<lparr>record_buffer := take (unat msg_ser_len) (msg_serialized msg)\<rparr>;
          b2 = writeHeader header msg_ser_len b1;
          b3 = Bag_write (record_buffer b2) b2
      in if Time_gt t (ci_end_time (curr_chunk_info b3))
         then b3\<lparr>curr_chunk_info := (curr_chunk_info b3)\<lparr>ci_end_time := t\<rparr>\<rparr>
         else b3)"

text \<open>
  \<open>Bag::write\<close> for a message (\<open>write_msg\<close>). \<open>scheduledCheckDisk\<close> depends on the wall clock: the input \<open>disk\<close> is
  \<open>None\<close> when no check is due, and otherwise the outcome of \<open>statvfs\<close>.
\<close>

definition scheduledCheckDisk :: "statvfs_data option option \<Rightarrow> Bag \<Rightarrow> bool \<times> Bag" where
  "scheduledCheckDisk disk b = (case disk of None \<Rightarrow> (True, b) | Some st \<Rightarrow> checkDisk st b)"

definition write_msg ::
  "Codec \<Rightarrow> u32 \<Rightarrow> statvfs_data option option \<Rightarrow> string \<Rightarrow> Time \<Rightarrow> Message \<Rightarrow> Bag \<Rightarrow> Bag" where
  "write_msg cdc sizeof_IndexEntry disk topic t msg b =
     (if \<not> checkLogging b then b
      else (let needs_def_written = (map_of (topic_infos b) topic = None);
                b1 = (if needs_def_written
                      then b\<lparr>topic_infos := M_set topic
                                \<lparr>ti_topic = topic, ti_msg_def = msg_definition msg,
                                 ti_datatype = msg_datatype msg, ti_md5sum = msg_md5sum msg\<rparr>
                                (topic_infos b),
                             topic_indexes := M_set topic [] (topic_indexes b)\<rparr>
                      else b);
                topic_info = the (map_of (topic_infos b1) topic);
                b2 = snd (scheduledCheckDisk disk b1);
                latching = (case msg_connection_header msg of
                              None \<Rightarrow> False
                            | Some h \<Rightarrow> (case map_of h ''latching'' of
                                           None \<Rightarrow> False | Some v \<Rightarrow> v \<noteq> ''0''));
                callerid = (case msg_connection_header msg of
                              None \<Rightarrow> []
                            | Some h \<Rightarrow> (case map_of h ''callerid'' of
                                           None \<Rightarrow> [] | Some v \<Rightarrow> v));
                b3 = Bag_seek_end b2;
                b4 = (if \<not> chunk_open b3 then startWritingChunk cdc t b3 else b3);
                index_entry = \<lparr>ie_time = t, ie_chunk_pos = ci_pos (curr_chunk_info b4),
                               ie_offset = getChunkOffset b4\<rparr>;
                b5 = b4\<lparr>curr_chunk_topic_indexes :=
                           push_index_entry topic index_entry (curr_chunk_topic_indexes b4)\<rparr>;
                b6 = b5\<lparr>curr_chunk_info := (curr_chunk_info b5)\<lparr>ci_topic_counts :=
                           M_set topic
                             ((case map_of (ci_topic_counts (curr_chunk_info b5)) topic of
                                 None \<Rightarrow> 0 | Some c \<Rightarrow> c) + 1)
                             (ci_topic_counts (curr_chunk_info b5))\<rparr>\<rparr>;
                b7 = (if needs_def_written then writeMessageDefinitionRecord topic_info b6 else b6);
                b8 = writeMessageDataRecord topic t latching callerid msg b7;
                chunk_size = getChunkOffset b8
            in if chunk_size > chunk_threshold b8
               then stopWritingChunk cdc sizeof_IndexEntry b8
               else b8))"

text \<open>\<open>Bag::writeChunkInfoRecords\<close>.\<close>

fun chunk_info_data_len :: "(string, u32) std_map \<Rightarrow> u32 \<Rightarrow> u32" where
  "chunk_info_data_len [] data_len = data_len"
| "chunk_info_data_len ((topic, c) # rest) data_len =
     chunk_info_data_len rest (data_len + (4 + word_of_nat (length topic) + 4))"

fun writeTopicCounts :: "(string, u32) std_map \<Rightarrow> Bag \<Rightarrow> Bag" where
  "writeTopicCounts [] b = b"
| "writeTopicCounts ((topic, c) # rest) b =
     writeTopicCounts rest
       (Bag_write (u32_bytes c)
         (Bag_write topic
           (Bag_write (u32_bytes (word_of_nat (length topic))) b)))"

definition writeChunkInfoRecord :: "ChunkInfo \<Rightarrow> Bag \<Rightarrow> Bag" where
  "writeChunkInfoRecord chunk_info b =
     (let chunk_topic_count = (word_of_nat (length (ci_topic_counts chunk_info)) :: u32);
          header = M_set COUNT_FIELD_NAME (toHeaderString_u32 chunk_topic_count)
                  (M_set END_TIME_FIELD_NAME (toHeaderString_Time (ci_end_time chunk_info))
                  (M_set START_TIME_FIELD_NAME (toHeaderString_Time (ci_start_time chunk_info))
                  (M_set CHUNK_POS_FIELD_NAME (toHeaderString_u64 (word_of_nat (ci_pos chunk_info)))
                  (M_set VER_FIELD_NAME (toHeaderString_u32 CHUNK_INFO_VERSION)
                  (M_set OP_FIELD_NAME (toHeaderString_u8 OP_CHUNK_INFO) [])))));
          data_len = chunk_info_data_len (ci_topic_counts chunk_info) 0
      in writeTopicCounts (ci_topic_counts chunk_info) (writeHeader header data_len b))"

fun writeChunkInfoRecords_loop :: "ChunkInfo list \<Rightarrow> Bag \<Rightarrow> Bag" where
  "writeChunkInfoRecords_loop [] b = b"
| "writeChunkInfoRecords_loop (chunk_info # rest) b =
     writeChunkInfoRecords_loop rest (writeChunkInfoRecord chunk_info b)"

definition writeChunkInfoRecords :: "Bag \<Rightarrow> Bag" where
  "writeChunkInfoRecords b = writeChunkInfoRecords_loop (chunk_infos b) b"

text \<open>
  \<open>Bag::writeVersion\<close>, \<open>Bag::startWritingVersion103\<close>, \<open>Bag::stopWritingVersion103\<close>
  and \<open>Bag::openWrite\<close> (from the point where the file has been created, empty).
\<close>

definition writeVersion :: "Bag \<Rightarrow> Bag" where
  "writeVersion b = Bag_write (''#ROSBAG V'' @ VERSION @ [CHR 0x0A]) b"

definition startWritingVersion103 :: "Bag \<Rightarrow> Bag" where
  "startWritingVersion103 b =
     (let b1 = writeVersion b;
          b2 = b1\<lparr>file_header_pos := fpos (bag_file b1)\<rparr>
      in writeFileHeaderRecord b2)"

definition stopWritingVersion103 :: "Codec \<Rightarrow> u32 \<Rightarrow> Bag \<Rightarrow> Bag" where
  "stopWritingVersion103 cdc sizeof_IndexEntry b =
     (let b1 = (if chunk_open b then stopWritingChunk cdc sizeof_IndexEntry b else b);
          b2 = b1\<lparr>index_data_pos := fpos (bag_file b1)\<rparr>;
          b3 = writeMessageDefinitionRecords b2;
          b4 = writeChunkInfoRecords b3;
          b5 = Bag_seek (file_header_pos b4) b4;
          b6 = writeFileHeaderRecord b5
      in b6\<lparr>topic_infos := []\<rparr>)"

definition openWrite :: "statvfs_data option \<Rightarrow> Bag \<Rightarrow> bool \<times> Bag" where
  "openWrite disk b =
     (let b1 = b\<lparr>bag_file := \<lparr>contents = [], fpos = 0, write_mode = CNone, stage = []\<rparr>\<rparr>;
          b2 = snd (checkDisk disk b1)
      in (True, startWritingVersion103 b2))"

text \<open>
  Notions used to state and prove properties: a header field that the header encoding can
  carry (no \<open>=\<close> in the key, a length that is positive in the signed view), and the part
  of the file at and after the current offset.
\<close>

definition wf_field :: "string \<times> string \<Rightarrow> bool" where
  "wf_field kv = (CHR ''='' \<notin> set (fst kv) \<and> length (fst kv) + 1 + length (snd kv) < 2 ^ 31)"

definition pending :: "Bag \<Rightarrow> string" where
  "pending b = drop (fpos (bag_file b)) (contents (bag_file b))"

section \<open>Example inputs\<close>

text \<open>A bag that knows the topic \<open>/a\<close> and is about to read a second MSG_DEF record for it.\<close>

definition example_info :: TopicInfo where
  "example_info = \<lparr>ti_topic = ''/a'', ti_msg_def = ''msg A'', ti_datatype = ''pkg/A'',
                    ti_md5sum = replicate 32 CHR ''0''\<rparr>"

definition example_def_fields :: M_string where
  "example_def_fields =
     [(DEF_FIELD_NAME, ''msg B''), (MD5_FIELD_NAME, replicate 32 CHR ''1''),
      (OP_FIELD_NAME, toHeaderString_u8 OP_MSG_DEF), (TOPIC_FIELD_NAME, ''/a''),
      (TYPE_FIELD_NAME, ''pkg/B'')]"

definition example_def_bag :: Bag where
  "example_def_bag = Bag_ctor
     \<lparr>bag_file := \<lparr>contents = u32_bytes (word_of_nat (length (Header_write example_def_fields)))
                                 @ Header_write example_def_fields @ u32_bytes 0 @ [],
                     fpos = 0, write_mode = CNone, stage = []\<rparr>,
      topic_infos := [(''/a'', example_info)]\<rparr>"

text \<open>
  A file with one chunk at offset 13 that holds a MSG_DEF and a MSG_DATA record for
  \<open>/a\<close>, under each compression, with a stand-in for the compression primitives: the
  compressed form is the data behind a one-byte tag.
\<close>

definition toy_codec :: Codec where
  "toy_codec = \<lparr>compress = (\<lambda>c s. case c of CNone \<Rightarrow> s | BZ2 \<Rightarrow> CHR ''B'' # s | ZLIB \<Rightarrow> CHR ''Z'' # s),
                decompress = (\<lambda>c z n. take n (tl z))\<rparr>"

definition example_data_fields :: M_string where
  "example_data_fields =
     [(OP_FIELD_NAME, toHeaderString_u8 OP_MSG_DATA),
      (TIME_FIELD_NAME, toHeaderString_Time \<lparr>sec = 10, nsec = 0\<rparr>),
      (TOPIC_FIELD_NAME, ''/a'')]"

definition example_payload :: string where
  "example_payload = [CHR 0xDE, CHR 0xAD]"

definition example_chunk_data :: string where
  "example_chunk_data = spec_record example_def_fields [] @ spec_record example_data_fields example_payload"

definition example_chunk_file :: "CompressionType \<Rightarrow> string" where
  "example_chunk_file c =
     ''#ROSBAG V1.3'' @ [CHR 0x0A] @
     spec_record [(COMPRESSION_FIELD_NAME, compression_name c),
                  (OP_FIELD_NAME, toHeaderString_u8 OP_CHUNK),
                  (SIZE_FIELD_NAME, toHeaderString_u32 (word_of_nat (length example_chunk_data)))]
                 (compress toy_codec c example_chunk_data)"

definition example_reader :: "CompressionType \<Rightarrow> Bag" where
  "example_reader c = Bag_ctor\<lparr>bag_file := \<lparr>contents = example_chunk_file c, fpos = 0,
                                               write_mode = CNone, stage = []\<rparr>\<rparr>"

definition example_chunk_header :: "CompressionType \<Rightarrow> string" where
  "example_chunk_header c = Header_write [(COMPRESSION_FIELD_NAME, compression_name c),
                  (OP_FIELD_NAME, toHeaderString_u8 OP_CHUNK),
                  (SIZE_FIELD_NAME, toHeaderString_u32 (word_of_nat (length example_chunk_data)))]"

text \<open>
  \<open>std::lower_bound\<close> and \<open>std::upper_bound\<close> over a vector of index entries, as binary
  searches: \<open>bound_loop\<close> halves the range \<open>[first, first + len)\<close> and moves right while
  the test holds at the middle. For \<open>lower_bound\<close> the test is \<open>comp(*middle, value)\<close>, for
  \<open>upper_bound\<close> it is \<open>!comp(value, *middle)\<close>, with \<open>IndexEntryCompare\<close> comparing
  the time of the entry and the value by \<open>operator<\<close>.
\<close>

function bound_loop :: "(IndexEntry \<Rightarrow> bool) \<Rightarrow> IndexEntry list \<Rightarrow> nat \<Rightarrow> nat \<Rightarrow> nat" where
  "bound_loop go_right v first len =
     (if len = 0 then first
      else (let half = len div 2; middle = first + half
            in if go_right (v ! middle)
               then bound_loop go_right v (middle + 1) (len - half - 1)
               else bound_loop go_right v first half))"
  by pat_completeness auto
termination
  by (relation "measure (\<lambda>(go_right, v, first, len). len)") auto

declare bound_loop.simps [simp del]

definition lower_bound :: "IndexEntry list \<Rightarrow> Time \<Rightarrow> nat" where
  "lower_bound v t = bound_loop (\<lambda>x. Time_lt (ie_time x) t) v 0 (length v)"

definition upper_bound :: "IndexEntry list \<Rightarrow> Time \<Rightarrow> nat" where
  "upper_bound v t = bound_loop (\<lambda>x. \<not> Time_lt t (ie_time x)) v 0 (length v)"

text \<open>
  \<open>MergeHelper\<close>: the vector of a topic with the iterators \<open>iter\<close> and \<open>end\<close> as
  positions in it, and the topic's info.
\<close>

record MergeHelper =
  mh_index :: "IndexEntry list"
  mh_iter :: nat
  mh_end :: nat
  mh_topic_info :: TopicInfo

definition mh_time :: "MergeHelper \<Rightarrow> Time" where
  "mh_time h = ie_time (mh_index h ! mh_iter h)"

text \<open>\<open>MergeCompare\<close>.\<close>

definition MergeCompare :: "MergeHelper \<Rightarrow> MergeHelper \<Rightarrow> bool" where
  "MergeCompare a b = Time_gt (mh_time a) (mh_time b)"

text \<open>
  \<open>Bag::getMessagesByTopic\<close>. The \<open>std::priority_queue\<close> is the list of the helpers it
  holds; which of them \<open>top()\<close> returns is given by the parameter \<open>pq_top\<close>, a position in
  that list (the library fixes it only up to the order of \<open>MergeCompare\<close>). Dereferencing
  an iterator at or beyond the end of its vector is out of range: the comparison does so
  when such a helper is pushed.
\<close>

fun merge_setup :: "Bag \<Rightarrow> Time \<Rightarrow> Time \<Rightarrow> string list \<Rightarrow> MergeHelper list
    \<Rightarrow> MergeHelper list option" where
  "merge_setup b start_time end_time [] merge_queue = Some merge_queue"
| "merge_setup b start_time end_time (topic # rest) merge_queue =
     (case map_of (topic_indexes b) topic of
        None \<Rightarrow> merge_setup b start_time end_time rest merge_queue
      | Some index_entries \<Rightarrow>
          (case map_of (topic_infos b) topic of
             None \<Rightarrow> merge_setup b start_time end_time rest merge_queue
           | Some topic_info \<Rightarrow>
               (let merge_helper = \<lparr>mh_index = index_entries,
                                     mh_iter = lower_bound index_entries start_time,
                                     mh_end = upper_bound index_entries end_time,
                                     mh_topic_info = topic_info\<rparr>
                in if mh_iter merge_helper \<noteq> mh_end merge_helper
                   then (if mh_iter merge_helper < length (mh_index merge_helper)
                         then merge_setup b start_time end_time rest (merge_queue @ [merge_helper])
                         else None)
                   else merge_setup b start_time end_time rest merge_queue)))"

function merge_loop :: "(MergeHelper list \<Rightarrow> nat) \<Rightarrow> MergeHelper list \<Rightarrow> MessageInfo list
    \<Rightarrow> MessageInfo list option" where
  "merge_loop pq_top merge_queue messages =
     (if merge_queue = [] then Some messages
      else if pq_top merge_queue \<ge> length merge_queue then None
      else (let merge_helper = merge_queue ! pq_top merge_queue;
                popped = take (pq_top merge_queue) merge_queue @ drop (Suc (pq_top merge_queue)) merge_queue
            in if mh_iter merge_helper \<ge> length (mh_index merge_helper) then None
               else (let entry = mh_index merge_helper ! mh_iter merge_helper;
                         messages' = messages @ [\<lparr>mi_topic_info = mh_topic_info merge_helper,
                                                   mi_index_entry = entry\<rparr>];
                         advanced = merge_helper\<lparr>mh_iter := mh_iter merge_helper + 1\<rparr>
                     in if mh_iter advanced = mh_end advanced
                        then merge_loop pq_top popped messages'
                        else if mh_iter advanced \<ge> length (mh_index advanced) then None
                        else merge_loop pq_top (popped @ [advanced]) messages')))"
  by pat_completeness auto
termination
proof (relation "measure (\<lambda>(pq_top, q, messages). (\<Sum>h\<leftarrow>q. length (mh_index h) - mh_iter h))")
  show "wf (measure (\<lambda>(pq_top, q, messages). (\<Sum>h\<leftarrow>q. length (mh_index h) - mh_iter h)))"
    by simp
next
  fix pq_top :: "MergeHelper list \<Rightarrow> nat" and merge_queue :: "MergeHelper list"
    and messages x xa xb xc xd
  assume a: "\<not> length merge_queue \<le> pq_top merge_queue"
    and x: "x = merge_queue ! pq_top merge_queue"
    and xa: "xa = take (pq_top merge_queue) merge_queue @ drop (Suc (pq_top merge_queue)) merge_queue"
    and r: "\<not> length (mh_index x) \<le> mh_iter x"
  have q: "merge_queue = take (pq_top merge_queue) merge_queue @ x # drop (Suc (pq_top merge_queue)) merge_queue"
    using a x by (simp add: id_take_nth_drop)
  have s: "(\<Sum>h\<leftarrow>merge_queue. length (mh_index h) - mh_iter h) =
      (\<Sum>h\<leftarrow>xa. length (mh_index h) - mh_iter h) + (length (mh_index x) - mh_iter x)"
    by (subst q) (simp add: xa)
  show "((pq_top, xa, xc), pq_top, merge_queue, messages)
      \<in> measure (\<lambda>(pq_top, q, messages). (\<Sum>h\<leftarrow>q. length (mh_index h) - mh_iter h))"
    using s r by simp
  assume xd: "xd = x\<lparr>mh_iter := mh_iter x + 1\<rparr>"
  show "((pq_top, xa @ [xd], xc), pq_top, merge_queue, messages)
      \<in> measure (\<lambda>(pq_top, q, messages). (\<Sum>h\<leftarrow>q. length (mh_index h) - mh_iter h))"
    using s r by (simp add: xd)
qed

declare merge_loop.simps [simp del]

definition getMessagesByTopic ::
  "(MergeHelper list \<Rightarrow> nat) \<Rightarrow> Bag \<Rightarrow> string list \<Rightarrow> Time \<Rightarrow> Time \<Rightarrow> MessageInfo list option" where
  "getMessagesByTopic pq_top b topics start_time end_time =
     (case merge_setup b start_time end_time topics [] of
        None \<Rightarrow> None
      | Some merge_queue \<Rightarrow> merge_loop pq_top merge_queue [])"

text \<open>
  Notions used to state the properties of the queries: an index sorted by time
  (invariant 2 of the spec), the entries of a topic within a time range, as messages, and
  what the library guarantees of \<open>top()\<close>: it returns an element of the queue below which,
  in the order of \<open>MergeCompare\<close>, no other element lies. \<open>first_min_top\<close> is one such
  choice: the first helper of least time.
\<close>

definition sorted_by_time :: "IndexEntry list \<Rightarrow> bool" where
  "sorted_by_time idx = sorted_wrt (\<lambda>x y. Time_le (ie_time x) (ie_time y)) idx"

definition in_time_range :: "Time \<Rightarrow> Time \<Rightarrow> IndexEntry \<Rightarrow> bool" where
  "in_time_range start_time end_time x =
     (Time_ge (ie_time x) start_time \<and> Time_le (ie_time x) end_time)"

definition topic_range_messages :: "Bag \<Rightarrow> Time \<Rightarrow> Time \<Rightarrow> string \<Rightarrow> MessageInfo list" where
  "topic_range_messages b start_time end_time topic =
     (case map_of (topic_indexes b) topic of
        None \<Rightarrow> []
      | Some idx \<Rightarrow>
          (case map_of (topic_infos b) topic of
             None \<Rightarrow> []
           | Some info \<Rightarrow> map (\<lambda>x. \<lparr>mi_topic_info = info, mi_index_entry = x\<rparr>)
                            (filter (in_time_range start_time end_time) idx)))"

definition is_pq_top :: "(MergeHelper list \<Rightarrow> nat) \<Rightarrow> bool" where
  "is_pq_top pq_top =
     (\<forall>q. q \<noteq> [] \<longrightarrow> pq_top q < length q \<and> (\<forall>h \<in> set q. \<not> MergeCompare (q ! pq_top q) h))"

fun first_min_top :: "MergeHelper list \<Rightarrow> nat" where
  "first_min_top [] = 0"
| "first_min_top [h] = 0"
| "first_min_top (h # g # rest) =
     (if MergeCompare h ((g # rest) ! first_min_top (g # rest))
      then Suc (first_min_top (g # rest)) else 0)"


section \<open>Little-endian helpers\<close>

lemma length_le_bytes: "length (le_bytes k n) = k"
  by (induction k arbitrary: n) auto

lemma le_nat_le_bytes: "le_nat (le_bytes k n) = n mod 256 ^ k"
proof (induction k arbitrary: n)
  case 0
  show ?case by simp
next
  case (Suc k)
  have "n mod 256 + 256 * ((n div 256) mod 256 ^ k) = n mod (256 * 256 ^ k)"
    by (simp add: mod_mult2_eq)
  with Suc show ?case by simp
qed

lemma length_toHeaderString:
  "length (toHeaderString_u8 a) = 1"
  "length (toHeaderString_u32 b) = 4"
  "length (toHeaderString_u64 c) = 8"
  by (simp_all add: toHeaderString_u8_def toHeaderString_u32_def toHeaderString_u64_def
      length_le_bytes del: le_bytes.simps)

lemma u64_of_le_bytes: "(word_of_nat (le_nat (le_bytes 8 (unat w))) :: u64) = w"
proof -
  have "unat w < 2 ^ 64"
    using unsigned_less [of w] by simp
  then have "unat w mod 256 ^ 8 = unat w"
    by simp
  then show ?thesis
    by (simp only: le_nat_le_bytes) simp
qed

lemma u32_of_le_bytes: "(word_of_nat (le_nat (le_bytes 4 (unat w))) :: u32) = w"
proof -
  have "unat w < 2 ^ 32"
    using unsigned_less [of w] by simp
  then have "unat w mod 256 ^ 4 = unat w"
    by simp
  then show ?thesis
    by (simp only: le_nat_le_bytes) simp
qed

lemma u8_of_le_bytes: "(word_of_nat (le_nat (le_bytes 1 (unat w))) :: u8) = w"
proof -
  have "unat w < 2 ^ 8"
    using unsigned_less [of w] by simp
  then have "unat w mod 256 ^ 1 = unat w"
    by simp
  then show ?thesis
    by (simp only: le_nat_le_bytes) simp
qed

lemma pack_time_or:
  "push_bit 32 (ucast (n :: u32) :: u64) + ucast (s :: u32) = push_bit 32 (ucast n) OR ucast s"
  by (rule disjunctive_add_eq_or)
     (rule bit_word_eqI, auto simp add: bit_simps dest: bit_imp_le_length)

lemma bitmask_33: "(push_bit 33 1 - 1 :: u64) = mask 33"
  by (simp add: mask_eq_exp_minus_1)

lemma unpack_pack_time: "unpack_time (pack_time t) = t"
proof -
  have s: "(ucast ((push_bit 32 (ucast (nsec t) :: u64) + ucast (sec t)) AND (push_bit 33 1 - 1)) :: u32)
        = sec t"
    unfolding pack_time_or bitmask_33
    by (rule bit_word_eqI) (auto simp add: bit_simps dest: bit_imp_le_length)
  have n: "(ucast (drop_bit 32 (push_bit 32 (ucast (nsec t) :: u64) + ucast (sec t))) :: u32)
        = nsec t"
    unfolding pack_time_or
    by (rule bit_word_eqI) (auto simp add: bit_simps dest: bit_imp_le_length)
  show ?thesis
    unfolding unpack_time_def pack_time_def Let_def using s n by simp
qed

section \<open>Writing records\<close>

lemma write_at_append:
  "write_at (write_at cs p a) (p + length a) b = write_at cs p (a @ b)"
  by (auto simp add: write_at_def min_def ac_simps)

lemma file_write_append: "file_write t (file_write s f) = file_write (s @ t) f"
  by (simp add: file_write_def write_at_append)

lemma Bag_write_append: "Bag_write t (Bag_write s b) = Bag_write (s @ t) b"
  by (simp add: Bag_write_def file_write_append)

lemma length_u32_bytes: "length (u32_bytes w) = 4"
  by (simp add: u32_bytes_def length_le_bytes del: le_bytes.simps)

lemma FileHeader_fields:
  "M_set CHUNK_COUNT_FIELD_NAME c (M_set TOPIC_COUNT_FIELD_NAME t
     (M_set INDEX_POS_FIELD_NAME i (M_set OP_FIELD_NAME p []))) =
   [(CHUNK_COUNT_FIELD_NAME, c), (INDEX_POS_FIELD_NAME, i), (OP_FIELD_NAME, p),
    (TOPIC_COUNT_FIELD_NAME, t)]"
  by simp

lemma FileHeader_length:
  "length (Header_write (M_set CHUNK_COUNT_FIELD_NAME (toHeaderString_u32 c)
     (M_set TOPIC_COUNT_FIELD_NAME (toHeaderString_u32 t)
     (M_set INDEX_POS_FIELD_NAME (toHeaderString_u64 i)
     (M_set OP_FIELD_NAME (toHeaderString_u8 p) []))))) = 70"
  by (simp only: FileHeader_fields) (simp add: length_u32_bytes length_toHeaderString)

lemma writeFileHeaderRecord_bytes:
  "writeFileHeaderRecord b =
     Bag_write (u32_bytes 70 @
        Header_write [(CHUNK_COUNT_FIELD_NAME, toHeaderString_u32 (word_of_nat (length (chunk_infos b)))),
                      (INDEX_POS_FIELD_NAME, toHeaderString_u64 (word_of_nat (index_data_pos b))),
                      (OP_FIELD_NAME, toHeaderString_u8 OP_FILE_HEADER),
                      (TOPIC_COUNT_FIELD_NAME, toHeaderString_u32 (word_of_nat (length (topic_infos b))))] @
        u32_bytes 4026 @ replicate 4026 CHR '' '')
       (b\<lparr>topic_count := word_of_nat (length (topic_infos b)),
          chunk_count := word_of_nat (length (chunk_infos b))\<rparr>)"
  unfolding writeFileHeaderRecord_def Let_def
  by (simp only: FileHeader_length FileHeader_fields Bag_write_append Bag.simps)
     (simp add: length_u32_bytes length_toHeaderString Bag_write_append)

lemma read_back_write_at: "take (length bs) (drop p (write_at cs p bs)) = bs"
  by (simp add: write_at_def min_def)

lemma read_back_write_at': "n = length bs \<Longrightarrow> take n (drop p (write_at cs p bs)) = bs"
  by (simp add: read_back_write_at)

lemma writeIndexEntries_bytes:
  "writeIndexEntries es b = Bag_write (concat (map packed_index_entry es)) b"
proof (induction es arbitrary: b)
  case Nil
  show ?case
    by (simp add: Bag_write_def file_write_def write_at_def)
next
  case (Cons e es)
  show ?case
    by (simp add: Cons.IH Bag_write_append packed_index_entry_def)
qed

lemma length_packed_index: "length (concat (map packed_index_entry es)) = 12 * length es"
  by (induction es) (simp_all add: packed_index_entry_def length_u32_bytes)

lemma writeTopicIndexRecord_bytes:
  "writeTopicIndexRecord sz topic idx b =
     (let hdr = Header_write [(COUNT_FIELD_NAME, toHeaderString_u32 (word_of_nat (length idx))),
                              (OP_FIELD_NAME, toHeaderString_u8 OP_INDEX_DATA),
                              (TOPIC_FIELD_NAME, topic),
                              (VER_FIELD_NAME, toHeaderString_u32 INDEX_VERSION)]
      in Bag_write (u32_bytes (word_of_nat (length hdr)) @
                    take (unat (word_of_nat (length hdr) :: u32)) hdr @
                    u32_bytes (word_of_nat (length idx) * sz) @
                    concat (map packed_index_entry idx)) b)"
  by (simp add: writeTopicIndexRecord_def writeHeader_def Let_def writeIndexEntries_bytes
        Bag_write_append)

lemma thr: "\<not> ((5368709120 :: u64) \<le> x \<and> x < 1073741824)"
  by (simp add: word_le_nat_alt word_less_nat_alt)

section \<open>Reading back what was written\<close>

lemma le_nat_u32_bytes: "le_nat (u32_bytes w) = unat w"
proof -
  have "unat w < 2 ^ 32"
    using unsigned_less [of w] by simp
  then have "unat w mod 256 ^ 4 = unat w"
    by simp
  then show ?thesis
    by (simp only: u32_bytes_def le_nat_le_bytes)
qed

lemma unat_of_nat_u32: "n < 2 ^ 32 \<Longrightarrow> unat (word_of_nat n :: u32) = n"
  by (simp add: unat_of_nat)

lemma split_field_key_value:
  "CHR ''='' \<notin> set k \<Longrightarrow> split_field (k @ CHR ''='' # v) = Some (k, v)"
  by (induction k) auto

lemma M_set_append:
  "\<forall>k' \<in> set (map fst acc). k' < k \<Longrightarrow> M_set k v acc = acc @ [(k, v)]"
  by (induction acc) auto

lemma map_of_None_less:
  "\<forall>k' \<in> set (map fst acc). k' < (k :: 'k :: linorder) \<Longrightarrow> map_of acc k = None"
  by (induction acc) auto

lemma Header_parse_loop_Nil: "Header_parse_loop [] acc = Some acc"
  by (subst Header_parse_loop.simps) simp

lemma Header_parse_loop_step:
  assumes eq: "CHR ''='' \<notin> set k" and n: "n = length k + 1 + length v" "n < 2 ^ 31"
    and fresh: "map_of acc k = None"
  shows "Header_parse_loop (u32_bytes (word_of_nat n) @ k @ CHR ''='' # v @ rest) acc =
         Header_parse_loop rest (M_set k v acc)"
proof -
  define buf where "buf = u32_bytes (word_of_nat n) @ k @ CHR ''='' # v @ rest"
  have un: "unat (word_of_nat n :: u32) = n"
    by (rule unat_of_nat_u32) (use n(2) in simp)
  have t4: "take 4 buf = u32_bytes (word_of_nat n)"
    unfolding buf_def by (simp add: length_u32_bytes)
  have len: "length buf = 4 + n + length rest"
    unfolding buf_def by (simp add: length_u32_bytes n(1))
  have tk: "take n (drop 4 buf) = k @ CHR ''='' # v"
    unfolding buf_def by (simp add: length_u32_bytes n(1))
  have dr: "drop (4 + n) buf = rest"
    unfolding buf_def by (simp add: length_u32_bytes n(1))
  have ne: "buf \<noteq> []" "\<not> length buf < 4" "\<not> length buf - 4 < n"
    using len by auto
  have "Header_parse_loop buf acc = Header_parse_loop rest (M_set k v acc)"
    by (subst Header_parse_loop.simps)
       (simp only: ne t4 le_nat_u32_bytes un Let_def tk dr split_field_key_value [OF eq],
        use n(2) fresh in simp)
  then show ?thesis
    by (simp only: buf_def)
qed

lemma Header_parse_loop_write:
  "list_all wf_field m \<Longrightarrow> sorted_wrt (<) (map fst (acc @ m))
     \<Longrightarrow> Header_parse_loop (Header_write m) acc = Some (acc @ m)"
proof (induction m arbitrary: acc)
  case Nil
  show ?case
    by (simp add: Header_parse_loop_Nil)
next
  case (Cons kv m)
  obtain k v where kv: "kv = (k, v)"
    by (cases kv)
  from Cons.prems(1) have wfkv: "wf_field kv" and wfm: "list_all wf_field m"
    by simp_all
  from wfkv have wf: "CHR ''='' \<notin> set k" "length k + 1 + length v < 2 ^ 31"
    by (simp_all add: kv wf_field_def)
  have less: "\<forall>k' \<in> set (map fst acc). k' < k"
    using Cons.prems(2) by (auto simp add: kv sorted_wrt_append)
  have srt: "sorted_wrt (<) (map fst ((acc @ [(k, v)]) @ m))"
    using Cons.prems(2) by (simp add: kv)
  have "Header_parse_loop (Header_write (kv # m)) acc =
        Header_parse_loop (Header_write m) (M_set k v acc)"
    using Header_parse_loop_step [OF wf(1) refl wf(2) map_of_None_less [OF less],
          of "Header_write m"]
    by (simp add: kv)
  also have "\<dots> = Some ((acc @ [(k, v)]) @ m)"
    unfolding M_set_append [OF less] by (rule Cons.IH [OF wfm srt])
  finally show ?case
    by (simp add: kv)
qed

lemma Header_parse_write:
  "list_all wf_field m \<Longrightarrow> sorted_wrt (<) (map fst m) \<Longrightarrow> Header_parse (Header_write m) = Some m"
  using Header_parse_loop_write [of m "[]"] by (simp add: Header_parse_def)

lemma scan_version_current: "scan_version ''#ROSBAG V1.3'' = Some (1, 3)"
  by (simp add: scan_version_def scan_int_def isspace_def isdigit_def Let_def)

lemma file_read_at:
  assumes "drop (fpos f) (contents f) = bs @ rest"
  shows "file_read (length bs) f = Some (bs, f\<lparr>fpos := fpos f + length bs\<rparr>)"
proof (cases "bs = []")
  case True
  then show ?thesis
    by (simp add: file_read_def)
next
  case False
  have "length (drop (fpos f) (contents f)) = length bs + length rest"
    using assms by simp
  with False have "fpos f + length bs \<le> length (contents f)"
    by (cases bs) auto
  moreover have "take (length bs) (drop (fpos f) (contents f)) = bs"
    using assms by simp
  ultimately show ?thesis
    using False by (simp add: file_read_def)
qed

lemma Bag_read_pending:
  assumes "pending b = bs @ rest" and "n = length bs"
  shows "Bag_read n b = Some (bs, Bag_seek_cur n b)"
    and "pending (Bag_seek_cur n b) = rest"
proof -
  show "Bag_read n b = Some (bs, Bag_seek_cur n b)"
    using file_read_at [of "bag_file b" bs rest] assms
    by (simp add: Bag_read_def Bag_seek_cur_def pending_def)
  have "drop (length bs) (drop (fpos (bag_file b)) (contents (bag_file b))) = rest"
    using assms by (simp add: pending_def)
  then show "pending (Bag_seek_cur n b) = rest"
    by (simp add: pending_def Bag_seek_cur_def assms(2) add.commute)
qed

lemma Bag_seek_cur_add: "Bag_seek_cur m (Bag_seek_cur n b) = Bag_seek_cur (n + m) b"
  by (simp add: Bag_seek_cur_def add.assoc)

lemma readHeader_pending:
  assumes p: "pending b = u32_bytes hl @ hdr @ u32_bytes dl @ rest"
    and hl: "unat hl = length hdr"
    and parse: "Header_parse hdr = Some m"
  shows "readHeader b = Some (Some (m, dl), Bag_seek_cur (8 + length hdr) b)"
    and "pending (Bag_seek_cur (8 + length hdr) b) = rest"
proof -
  let ?b1 = "Bag_seek_cur 4 b"
  let ?b2 = "Bag_seek_cur (length hdr) ?b1"
  let ?b3 = "Bag_seek_cur 4 ?b2"
  have r1: "Bag_read 4 b = Some (u32_bytes hl, ?b1)"
    and p1: "pending ?b1 = hdr @ u32_bytes dl @ rest"
    using Bag_read_pending [OF p] by (simp_all add: length_u32_bytes)
  have r2: "Bag_read (length hdr) ?b1 = Some (hdr, ?b2)"
    and p2: "pending ?b2 = u32_bytes dl @ rest"
    using Bag_read_pending [OF p1] by simp_all
  have r3: "Bag_read 4 ?b2 = Some (u32_bytes dl, ?b3)"
    and p3: "pending ?b3 = rest"
    using Bag_read_pending [OF p2] by (simp_all add: length_u32_bytes)
  have b3: "?b3 = Bag_seek_cur (8 + length hdr) b"
    by (simp add: Bag_seek_cur_add)
  show "readHeader b = Some (Some (m, dl), Bag_seek_cur (8 + length hdr) b)"
    by (simp add: readHeader_def r1 le_nat_u32_bytes hl r2 parse r3 b3 [symmetric])
  show "pending (Bag_seek_cur (8 + length hdr) b) = rest"
    using p3 by (simp only: b3)
qed

lemma unfinished_file_contents:
  "contents (bag_file (snd (openWrite None Bag_ctor))) =
     ''#ROSBAG V1.3'' @ [CHR 0x0A] @
     u32_bytes 70 @
     Header_write [(CHUNK_COUNT_FIELD_NAME, toHeaderString_u32 0),
                   (INDEX_POS_FIELD_NAME, toHeaderString_u64 0),
                   (OP_FIELD_NAME, toHeaderString_u8 OP_FILE_HEADER),
                   (TOPIC_COUNT_FIELD_NAME, toHeaderString_u32 0)] @
     u32_bytes 4026 @ replicate 4026 CHR '' ''"
  by (simp add: openWrite_def checkDisk_def startWritingVersion103_def writeVersion_def Let_def
        writeFileHeaderRecord_bytes Bag_write_append)
     (simp add: Bag_write_def file_write_def write_at_def Bag_ctor_def)

lemma FileHeader_parse:
  "Header_parse (Header_write [(CHUNK_COUNT_FIELD_NAME, toHeaderString_u32 c),
                   (INDEX_POS_FIELD_NAME, toHeaderString_u64 i),
                   (OP_FIELD_NAME, toHeaderString_u8 p),
                   (TOPIC_COUNT_FIELD_NAME, toHeaderString_u32 t)]) =
   Some [(CHUNK_COUNT_FIELD_NAME, toHeaderString_u32 c),
                   (INDEX_POS_FIELD_NAME, toHeaderString_u64 i),
                   (OP_FIELD_NAME, toHeaderString_u8 p),
                   (TOPIC_COUNT_FIELD_NAME, toHeaderString_u32 t)]"
  by (rule Header_parse_write) (simp_all add: wf_field_def length_toHeaderString)

lemma of_toHeaderString:
  "(word_of_nat (le_nat (toHeaderString_u8 a)) :: u8) = a"
  "(word_of_nat (le_nat (toHeaderString_u32 b)) :: u32) = b"
  "(word_of_nat (le_nat (toHeaderString_u64 c)) :: u64) = c"
  unfolding toHeaderString_u8_def toHeaderString_u32_def toHeaderString_u64_def
  by (rule u8_of_le_bytes u32_of_le_bytes u64_of_le_bytes)+

lemma readField_u8_toHeaderString:
  "map_of m k = Some (toHeaderString_u8 w) \<Longrightarrow> readField_u8 m k = Some w"
  by (simp add: readField_u8_def checkField_def length_toHeaderString of_toHeaderString)

lemma readField_u32_toHeaderString:
  "map_of m k = Some (toHeaderString_u32 w) \<Longrightarrow> readField_u32 m k = Some w"
  by (simp add: readField_u32_def checkField_def length_toHeaderString of_toHeaderString)

lemma readField_u64_toHeaderString:
  "map_of m k = Some (toHeaderString_u64 w) \<Longrightarrow> readField_u64 m k = Some w"
  by (simp add: readField_u64_def checkField_def length_toHeaderString of_toHeaderString)

lemma readVersion_current:
  "readVersion (b\<lparr>bag_file := \<lparr>contents = ''#ROSBAG V1.3'' @ [CHR 0x0A] @ rest, fpos = 0,
                                 write_mode = CNone, stage = []\<rparr>\<rparr>) =
   Some (True, b\<lparr>bag_file := \<lparr>contents = ''#ROSBAG V1.3'' @ [CHR 0x0A] @ rest, fpos = 13,
                                 write_mode = CNone, stage = []\<rparr>,
                   file_header_pos := 13, bag_version := 103\<rparr>)"
  by (simp add: readVersion_def file_getline_def scan_version_current Let_def)

lemma getMessages_entries_eq:
  "getMessages_entries info s e idx msgs =
     msgs @ map (\<lambda>x. \<lparr>mi_topic_info = info, mi_index_entry = x\<rparr>)
              (filter (\<lambda>x. Time_ge (ie_time x) s \<and> Time_le (ie_time x) e) idx)"
  by (induction idx arbitrary: msgs) auto

lemma getMessages_topics_eq:
  "getMessages_topics idxs s e tis msgs =
     msgs @ concat (map (\<lambda>(topic, info).
        case map_of idxs topic of
          None \<Rightarrow> []
        | Some idx \<Rightarrow> map (\<lambda>x. \<lparr>mi_topic_info = info, mi_index_entry = x\<rparr>)
              (filter (\<lambda>x. Time_ge (ie_time x) s \<and> Time_le (ie_time x) e) idx)) tis)"
proof (induction tis arbitrary: msgs)
  case Nil
  show ?case by simp
next
  case (Cons p tis)
  obtain topic info where p: "p = (topic, info)"
    by (cases p)
  show ?case
    unfolding p by (cases "map_of idxs topic") (simp_all add: Cons.IH getMessages_entries_eq)
qed

lemma readHeader_frame:
  "readHeader b = Some (r, b1) \<Longrightarrow> topic_infos b1 = topic_infos b"
  by (auto simp add: readHeader_def Bag_read_def split: option.splits prod.splits)

section \<open>Random access on the example chunk\<close>

lemma of_u32_bytes: "(word_of_nat (le_nat (u32_bytes w)) :: u32) = w"
  by (simp add: le_nat_u32_bytes)

lemma readHeaderFromBuffer_at:
  assumes buf: "buffer = pre @ u32_bytes hl @ hdr @ u32_bytes dl @ rest"
    and ofs: "unat ofs = length pre"
    and hl: "unat hl = length hdr"
    and parse: "Header_parse hdr = Some m"
    and big: "length buffer > 8"
  shows "readHeaderFromBuffer buffer ofs = Some (Some (m, dl, word_of_nat (4 + length hdr + 4)))"
proof -
  define n where "n = unat ofs"
  have d0: "drop n buffer = u32_bytes hl @ hdr @ u32_bytes dl @ rest"
    by (simp add: buf ofs n_def)
  have t4: "take 4 (drop n buffer) = u32_bytes hl"
    unfolding d0 by (simp add: length_u32_bytes)
  have "drop 4 (drop n buffer) = hdr @ u32_bytes dl @ rest"
    unfolding d0 by (simp add: length_u32_bytes)
  then have d4: "drop (n + 4) buffer = hdr @ u32_bytes dl @ rest"
    by (simp add: add.commute)
  have "drop (length hdr) (drop (n + 4) buffer) = u32_bytes dl @ rest"
    unfolding d4 by simp
  then have d8: "drop (n + 4 + length hdr) buffer = u32_bytes dl @ rest"
    by (simp add: add.commute)
  have len: "length buffer = n + 4 + length hdr + 4 + length rest"
    by (simp add: buf length_u32_bytes ofs n_def)
  have "readHeaderFromBuffer buffer ofs =
      (if \<not> length buffer > 8 then None
      else if length buffer < n + 4 then None
      else (let header_len = le_nat (take 4 (drop n buffer))
            in if length buffer < n + 4 + header_len then None
               else (case Header_parse (take header_len (drop (n + 4) buffer)) of
                       None \<Rightarrow> Some None
                     | Some flds \<Rightarrow>
                         (if length buffer < n + 4 + header_len + 4 then None
                          else Some (Some (flds,
                                 word_of_nat (le_nat (take 4 (drop (n + 4 + header_len) buffer))),
                                 word_of_nat (4 + header_len + 4)))))))"
    by (simp only: readHeaderFromBuffer_def n_def)
  also have "\<dots> = Some (Some (m, dl, word_of_nat (4 + length hdr + 4)))"
    using big
    by (simp only: t4 le_nat_u32_bytes hl Let_def d4 d8)
       (simp add: parse len length_u32_bytes of_u32_bytes)
  finally show ?thesis .
qed

lemma skip_defs_buffer_def_record:
  assumes "readHeaderFromBuffer buffer ofs = Some (Some (m, dl, br))"
    and "readField_u8 m OP_FIELD_NAME = Some OP_MSG_DEF"
    and "length buffer < 2 ^ 32"
  shows "skip_defs_buffer buffer ofs = skip_defs_buffer buffer (ofs + br)"
  by (subst skip_defs_buffer.simps) (use assms in simp)

lemma skip_defs_buffer_other_record:
  assumes "readHeaderFromBuffer buffer ofs = Some (Some (m, dl, br))"
    and "readField_u8 m OP_FIELD_NAME = Some op"
    and "op \<noteq> OP_MSG_DEF"
    and "length buffer < 2 ^ 32"
  shows "skip_defs_buffer buffer ofs = Some (Some (m, dl, op, ofs + br))"
  by (subst skip_defs_buffer.simps) (use assms in simp)

lemma skip_defs_file_def_record:
  assumes "readHeader b = Some (Some (m, dl), b1)"
    and "readField_u8 m OP_FIELD_NAME = Some OP_MSG_DEF"
  shows "skip_defs_file b = skip_defs_file b1"
  by (subst skip_defs_file.simps) (use assms in simp)

lemma skip_defs_file_other_record:
  assumes "readHeader b = Some (Some (m, dl), b1)"
    and "readField_u8 m OP_FIELD_NAME = Some op"
    and "op \<noteq> OP_MSG_DEF"
  shows "skip_defs_file b = Some (Some (m, dl, op), b1)"
  by (subst skip_defs_file.simps) (use assms in simp)

lemma ChunkHeader_parse:
  assumes "c \<noteq> []" "length c < 2 ^ 20"
  shows "Header_parse (Header_write [(COMPRESSION_FIELD_NAME, c),
                   (OP_FIELD_NAME, toHeaderString_u8 p),
                   (SIZE_FIELD_NAME, toHeaderString_u32 us)]) =
   Some [(COMPRESSION_FIELD_NAME, c),
                   (OP_FIELD_NAME, toHeaderString_u8 p),
                   (SIZE_FIELD_NAME, toHeaderString_u32 us)]"
  by (rule Header_parse_write) (use assms in \<open>simp_all add: wf_field_def length_toHeaderString\<close>)

lemma readChunkHeader_pending:
  assumes p: "pending b = u32_bytes hl @ hdr @ u32_bytes cs @ rest"
    and hdr: "hdr = Header_write [(COMPRESSION_FIELD_NAME, c),
                   (OP_FIELD_NAME, toHeaderString_u8 OP_CHUNK),
                   (SIZE_FIELD_NAME, toHeaderString_u32 us)]"
    and hl: "unat hl = length hdr"
    and c: "c \<noteq> []" "length c < 2 ^ 20"
  shows "readChunkHeader b =
      Some (Some \<lparr>ch_compression = c, ch_compressed_size = cs, ch_uncompressed_size = us\<rparr>,
            Bag_seek_cur (8 + length hdr) b)"
    and "pending (Bag_seek_cur (8 + length hdr) b) = rest"
proof -
  let ?m = "[(COMPRESSION_FIELD_NAME, c), (OP_FIELD_NAME, toHeaderString_u8 OP_CHUNK),
             (SIZE_FIELD_NAME, toHeaderString_u32 us)]"
  have parse: "Header_parse hdr = Some ?m"
    unfolding hdr by (rule ChunkHeader_parse [OF c])
  note rh = readHeader_pending [OF p hl parse]
  have f1: "readField_u8 ?m OP_FIELD_NAME = Some OP_CHUNK"
    by (rule readField_u8_toHeaderString) simp
  have f2: "readField_u32 ?m SIZE_FIELD_NAME = Some us"
    by (rule readField_u32_toHeaderString) simp
  have f3: "readField_string ?m COMPRESSION_FIELD_NAME = Some c"
    using c by (simp add: readField_string_def readField_range_def checkField_def UINT_MAX_def)
  show "readChunkHeader b =
      Some (Some \<lparr>ch_compression = c, ch_compressed_size = cs, ch_uncompressed_size = us\<rparr>,
            Bag_seek_cur (8 + length hdr) b)"
    by (simp add: readChunkHeader_def rh(1) isOp_def f1 f2 f3 del: Header_write.simps)
  show "pending (Bag_seek_cur (8 + length hdr) b) = rest"
    by (rule rh(2))
qed

lemma example_lengths:
  "length (Header_write example_def_fields) = 87"
  "length (Header_write example_data_fields) = 37"
  "length (spec_record example_def_fields []) = 95"
  "length example_chunk_data = 142"
  by (simp_all add: example_chunk_data_def spec_record_def example_def_fields_def
      example_data_fields_def example_payload_def length_u32_bytes length_toHeaderString
      toHeaderString_Time_def)

lemma example_def_parse: "Header_parse (Header_write example_def_fields) = Some example_def_fields"
  by (rule Header_parse_write)
     (simp_all add: example_def_fields_def wf_field_def length_toHeaderString)

lemma example_data_parse: "Header_parse (Header_write example_data_fields) = Some example_data_fields"
  by (rule Header_parse_write)
     (simp_all add: example_data_fields_def wf_field_def length_toHeaderString toHeaderString_Time_def)

lemma example_buffer_read:
  "skip_defs_buffer example_chunk_data 0 =
     Some (Some (example_data_fields, 2, OP_MSG_DATA, 140))"
proof -
  have big: "length example_chunk_data > 8" "length example_chunk_data < 2 ^ 32"
    by (simp_all add: example_lengths)
  have b1: "example_chunk_data = [] @ u32_bytes 87 @ Header_write example_def_fields @ u32_bytes 0 @
      spec_record example_data_fields example_payload"
    by (simp add: example_chunk_data_def spec_record_def example_lengths)
  have r1: "readHeaderFromBuffer example_chunk_data 0 = Some (Some (example_def_fields, 0, 95))"
    using readHeaderFromBuffer_at [OF b1 _ _ example_def_parse big(1), of 0]
    by (simp add: example_lengths)
  have o1: "readField_u8 example_def_fields OP_FIELD_NAME = Some OP_MSG_DEF"
    by (rule readField_u8_toHeaderString) (simp add: example_def_fields_def)
  have b2: "example_chunk_data = spec_record example_def_fields [] @ u32_bytes 37 @
      Header_write example_data_fields @ u32_bytes 2 @ example_payload"
    by (simp add: example_chunk_data_def spec_record_def example_lengths example_payload_def)
  have r2: "readHeaderFromBuffer example_chunk_data 95 = Some (Some (example_data_fields, 2, 45))"
    using readHeaderFromBuffer_at [OF b2 _ _ example_data_parse big(1), of 95]
    by (simp add: example_lengths)
  have o2: "readField_u8 example_data_fields OP_FIELD_NAME = Some OP_MSG_DATA"
    by (rule readField_u8_toHeaderString) (simp add: example_data_fields_def)
  have "skip_defs_buffer example_chunk_data 0 = skip_defs_buffer example_chunk_data (0 + 95)"
    by (rule skip_defs_buffer_def_record [OF r1 o1 big(2)])
  also have "\<dots> = Some (Some (example_data_fields, 2, OP_MSG_DATA, 95 + 45))"
    by (simp only: add_0) (rule skip_defs_buffer_other_record [OF r2 o2 _ big(2)], simp)
  finally show ?thesis
    by simp
qed

lemma example_readChunkHeader:
  assumes pos: "fpos (bag_file b) = 13" and cont: "contents (bag_file b) = example_chunk_file c"
  shows "readChunkHeader b =
      Some (Some \<lparr>ch_compression = compression_name c,
                  ch_compressed_size = word_of_nat (length (compress toy_codec c example_chunk_data)),
                  ch_uncompressed_size = 142\<rparr>,
            Bag_seek_cur (8 + length (example_chunk_header c)) b)"
    and "pending (Bag_seek_cur (8 + length (example_chunk_header c)) b) =
           compress toy_codec c example_chunk_data"
proof -
  let ?hdr = "example_chunk_header c"
  let ?z = "compress toy_codec c example_chunk_data"
  have p: "pending b = u32_bytes (word_of_nat (length ?hdr)) @ ?hdr @ u32_bytes (word_of_nat (length ?z)) @ ?z"
    by (simp add: pending_def pos cont example_chunk_file_def spec_record_def example_chunk_header_def)
  have cn: "compression_name c \<noteq> []" "length (compression_name c) < 2 ^ 20"
    by (cases c; simp add: compression_name_def)+
  have len: "length ?hdr < 100"
    by (cases c; simp add: example_chunk_header_def compression_name_def length_u32_bytes
        length_toHeaderString)
  have hl: "unat (word_of_nat (length ?hdr) :: u32) = length ?hdr"
    by (rule unat_of_nat_u32) (use len in simp)
  have us: "(word_of_nat (length example_chunk_data) :: u32) = 142"
    by (simp add: example_lengths)
  note r = readChunkHeader_pending [OF p example_chunk_header_def hl cn]
  show "readChunkHeader b =
      Some (Some \<lparr>ch_compression = compression_name c,
                  ch_compressed_size = word_of_nat (length ?z),
                  ch_uncompressed_size = 142\<rparr>,
            Bag_seek_cur (8 + length ?hdr) b)"
    using r(1) by (simp only: us)
  show "pending (Bag_seek_cur (8 + length ?hdr) b) = ?z"
    by (rule r(2))
qed

lemma example_topic: "readField_string example_data_fields TOPIC_FIELD_NAME = Some ''/a''"
  by (simp add: readField_string_def readField_range_def checkField_def example_data_fields_def
        UINT_MAX_def)

lemma example_read_bz2:
  "\<exists>b'. readMessageDataRecord103 toy_codec ''/a'' 13 0 (example_reader BZ2) = Some (True, b')
        \<and> record_buffer b' = example_payload"
proof -
  define b0 where "b0 = Bag_seek 13 (example_reader BZ2)"
  define b1 where "b1 = Bag_seek_cur (8 + length (example_chunk_header BZ2)) b0"
  define b1' where "b1' = Bag_seek 13 b1"
  define b2 where "b2 = Bag_seek_cur (8 + length (example_chunk_header BZ2)) b1'"
  define b3 where "b3 = (Bag_seek_cur 143 b2)\<lparr>decompress_buffer := example_chunk_data,
      decompressed_chunk := 13\<rparr>"
  have d0: "decompressed_chunk (example_reader BZ2) \<noteq> 13"
    by (simp add: example_reader_def Bag_ctor_def)
  have f0: "fpos (bag_file b0) = 13" "contents (bag_file b0) = example_chunk_file BZ2"
    by (simp_all add: b0_def Bag_seek_def example_reader_def)
  note h1 = example_readChunkHeader [OF f0, folded b1_def]
  have d1: "decompressed_chunk b1 \<noteq> 13"
    by (simp add: b1_def Bag_seek_cur_def b0_def Bag_seek_def example_reader_def Bag_ctor_def)
  have f1: "fpos (bag_file b1') = 13" "contents (bag_file b1') = example_chunk_file BZ2"
    by (simp_all add: b1'_def b1_def b0_def Bag_seek_def Bag_seek_cur_def example_reader_def)
  note h2 = example_readChunkHeader [OF f1, folded b2_def]
  have z: "compress toy_codec BZ2 example_chunk_data = CHR ''B'' # example_chunk_data"
    by (simp add: toy_codec_def)
  have p2: "pending b2 = (CHR ''B'' # example_chunk_data) @ []"
    using h2(2) by (simp add: z)
  have rd: "Bag_read 143 b2 = Some (CHR ''B'' # example_chunk_data, Bag_seek_cur 143 b2)"
    by (rule Bag_read_pending(1) [OF p2]) (simp add: example_lengths)
  have dc: "decompressChunk toy_codec 13 b1 = Some (True, b3)"
    unfolding decompressChunk_def
    by (simp add: d1 h2(1) [unfolded b1'_def] compression_name_def z example_lengths rd
          b3_def toy_codec_def)
  have d3: "decompressed_chunk b3 = 13" "decompress_buffer b3 = example_chunk_data"
    by (simp_all add: b3_def)
  have "readMessageDataRecord103 toy_codec ''/a'' 13 0 (example_reader BZ2) =
      Some (True, b3\<lparr>record_buffer := example_payload\<rparr>)"
    unfolding readMessageDataRecord103_def
    by (simp add: d0 h1(1) [unfolded b0_def] compression_name_def dc d3 example_buffer_read
          example_topic example_lengths)
       (simp add: example_chunk_data_def spec_record_def example_lengths example_payload_def
          length_u32_bytes)
  then show ?thesis
    by simp
qed

lemma le_bytes_4:
  "le_bytes 4 n = [char_of n, char_of (n div 256), char_of (n div 256 div 256),
      char_of (n div 256 div 256 div 256)]"
proof -
  have e: "(4 :: nat) = Suc (Suc (Suc (Suc 0)))"
    by simp
  show ?thesis
    unfolding e by simp
qed

lemma example_read_none:
  "\<exists>b'. readMessageDataRecord103 toy_codec ''/a'' 13 0 (example_reader CNone) = Some (True, b')
        \<and> record_buffer b' = example_payload"
proof -
  define b0 where "b0 = Bag_seek 13 (example_reader CNone)"
  define b1 where "b1 = Bag_seek_cur (8 + length (example_chunk_header CNone)) b0"
  define b2 where "b2 = Bag_seek_cur (8 + length (Header_write example_def_fields)) b1"
  define b3 where "b3 = Bag_seek_cur (8 + length (Header_write example_data_fields)) b2"
  have d0: "decompressed_chunk (example_reader CNone) \<noteq> 13"
    by (simp add: example_reader_def Bag_ctor_def)
  have f0: "fpos (bag_file b0) = 13" "contents (bag_file b0) = example_chunk_file CNone"
    by (simp_all add: b0_def Bag_seek_def example_reader_def)
  note h1 = example_readChunkHeader [OF f0, folded b1_def]
  have d1: "decompressed_chunk b1 \<noteq> 13"
    by (simp add: b1_def Bag_seek_cur_def b0_def Bag_seek_def example_reader_def Bag_ctor_def)
  have p1: "pending b1 = u32_bytes 87 @ Header_write example_def_fields @ u32_bytes 0 @
      spec_record example_data_fields example_payload"
    using h1(2) by (simp add: toy_codec_def example_chunk_data_def spec_record_def example_lengths)
  note r1 = readHeader_pending [OF p1 _ example_def_parse, folded b2_def]
  have o1: "readField_u8 example_def_fields OP_FIELD_NAME = Some OP_MSG_DEF"
    by (rule readField_u8_toHeaderString) (simp add: example_def_fields_def)
  have p2: "pending b2 = u32_bytes 37 @ Header_write example_data_fields @ u32_bytes 2 @ example_payload @ []"
    using r1(2) by (simp add: example_lengths spec_record_def example_payload_def)
  note r2 = readHeader_pending [OF p2 _ example_data_parse, folded b3_def]
  have o2: "readField_u8 example_data_fields OP_FIELD_NAME = Some OP_MSG_DATA"
    by (rule readField_u8_toHeaderString) (simp add: example_data_fields_def)
  have "skip_defs_file b1 = skip_defs_file b2"
    by (rule skip_defs_file_def_record [OF r1(1) o1]) (simp add: example_lengths)
  also have "\<dots> = Some (Some (example_data_fields, 2, OP_MSG_DATA), b3)"
    by (rule skip_defs_file_other_record [OF r2(1) o2]) (simp_all add: example_lengths)
  finally have sk: "skip_defs_file b1 = Some (Some (example_data_fields, 2, OP_MSG_DATA), b3)" .
  have p3: "pending b3 = example_payload @ []"
    by (rule r2(2)) (simp add: example_lengths)
  have rd: "Bag_read 2 b3 = Some (example_payload, Bag_seek_cur 2 b3)"
    by (rule Bag_read_pending(1) [OF p3]) (simp add: example_payload_def)
  have s0: "Bag_seek_cur 0 b1 = b1"
    by (simp add: Bag_seek_cur_def)
  have "readMessageDataRecord103 toy_codec ''/a'' 13 0 (example_reader CNone) =
      Some (True, (Bag_seek_cur 2 b3)\<lparr>record_buffer := example_payload\<rparr>)"
    unfolding readMessageDataRecord103_def
    by (simp add: d0 h1(1) [unfolded b0_def] compression_name_def d1 s0 sk example_topic rd)
  then show ?thesis
    by simp
qed

lemma example_read_zlib:
  "readMessageDataRecord103 toy_codec ''/a'' 13 0 (example_reader ZLIB) = None"
proof -
  define b0 where "b0 = Bag_seek 13 (example_reader ZLIB)"
  define b1 where "b1 = Bag_seek_cur (8 + length (example_chunk_header ZLIB)) b0"
  have d0: "decompressed_chunk (example_reader ZLIB) \<noteq> 13"
    by (simp add: example_reader_def Bag_ctor_def)
  have f0: "fpos (bag_file b0) = 13" "contents (bag_file b0) = example_chunk_file ZLIB"
    by (simp_all add: b0_def Bag_seek_def example_reader_def)
  note h1 = example_readChunkHeader [OF f0, folded b1_def]
  have d1: "decompressed_chunk b1 \<noteq> 13"
    by (simp add: b1_def Bag_seek_cur_def b0_def Bag_seek_def example_reader_def Bag_ctor_def)
  have p1: "pending b1 = [CHR ''Z'', char_of (87 :: nat), char_of (0 :: nat), char_of (0 :: nat)] @
      (char_of (0 :: nat) # Header_write example_def_fields @ u32_bytes 0 @
      spec_record example_data_fields example_payload)"
    using h1(2)
    by (simp add: toy_codec_def example_chunk_data_def spec_record_def example_lengths)
       (simp add: u32_bytes_def le_bytes_4 del: le_bytes.simps)
  have rd: "Bag_read 4 b1 = Some ([CHR ''Z'', char_of (87 :: nat), char_of (0 :: nat), char_of (0 :: nat)],
      Bag_seek_cur 4 b1)"
    by (rule Bag_read_pending(1) [OF p1]) simp
  have len: "length (contents (bag_file b1)) - fpos (bag_file b1) = 143"
    using arg_cong [OF h1(2), of length]
    by (simp add: pending_def toy_codec_def example_lengths)
  have short: "Bag_read 22362 (Bag_seek_cur 4 b1) = None"
    using len by (simp add: Bag_read_def file_read_def Bag_seek_cur_def)
  have "readHeader b1 = None"
    by (simp add: readHeader_def rd short)
  then have sk: "skip_defs_file b1 = None"
    by (subst skip_defs_file.simps) simp
  have s0: "Bag_seek_cur 0 b1 = b1"
    by (simp add: Bag_seek_cur_def)
  show ?thesis
    unfolding readMessageDataRecord103_def
    by (simp add: d0 h1(1) [unfolded b0_def] compression_name_def d1 s0 sk)
qed

section \<open>Claims\<close>

text \<open>
  C7. For every time value with 32-bit \<open>sec\<close> and \<open>nsec\<close>, writing it as a header field
  with \<open>toHeaderString\<close> (packed into a u64, \<open>sec\<close> low and \<open>nsec\<close> high, eight
  little-endian bytes) and reading the field back with \<open>readField\<close> (mask of the low 33
  bits for \<open>sec\<close>, shift right by 32 for \<open>nsec\<close>) returns exactly that time value.
\<close>

theorem C7_time_field_roundtrip:
  "readField_Time (M_set name (toHeaderString_Time t) flds) name = Some t"
proof -
  have look: "map_of (M_set name v flds) name = Some v" for v
    by (induction flds) auto
  have len: "length (toHeaderString_u64 (pack_time t)) = 8"
    by (rule length_toHeaderString)
  have "readField_u64 (M_set name (toHeaderString_Time t) flds) name = Some (pack_time t)"
    using len
    by (simp add: readField_u64_def checkField_def look toHeaderString_Time_def)
       (simp add: toHeaderString_u64_def u64_of_le_bytes del: le_bytes.simps)
  then show ?thesis
    by (simp add: readField_Time_def unpack_pack_time)
qed

text \<open>
  C1. Every INDEX_DATA record that \<open>writeTopicIndexRecords\<close> emits carries as data the
  packed array of its \<open>count\<close> entries \<open>(u32 sec, u32 nsec, u32 offset)\<close>, and its
  \<open>u32\<close> data-length prefix is the byte length \<open>12 * count\<close> of that array. The code
  at a chunk with the single topic \<open>/a\<close> and one index entry, \<open>sizeof(IndexEntry) = 24\<close>:
  the data section is the twelve packed bytes, but the data-length prefix written is 24.
\<close>

theorem C1_data_length_prefix_at_failing_input:
  "contents (bag_file (writeTopicIndexRecords 24
      (Bag_ctor\<lparr>curr_chunk_topic_indexes :=
         [(''/a'', [\<lparr>ie_time = \<lparr>sec = 1, nsec = 0\<rparr>, ie_chunk_pos = 0, ie_offset = 0\<rparr>])]\<rparr>))) =
     u32_bytes 46 @
     Header_write [(COUNT_FIELD_NAME, toHeaderString_u32 1),
                   (OP_FIELD_NAME, toHeaderString_u8 OP_INDEX_DATA),
                   (TOPIC_FIELD_NAME, ''/a''),
                   (VER_FIELD_NAME, toHeaderString_u32 INDEX_VERSION)] @
     u32_bytes 24 @
     (u32_bytes 1 @ u32_bytes 0 @ u32_bytes 0) \<and>
   length (u32_bytes 1 @ u32_bytes 0 @ u32_bytes 0) = 12"
  by (simp add: writeTopicIndexRecords_def writeTopicIndexRecord_bytes Let_def
        length_u32_bytes length_toHeaderString packed_index_entry_def
        Bag_write_def file_write_def Bag_ctor_def write_at_def)

text \<open>
  C3 (as stated). The FILE_HEADER record written by \<open>writeFileHeaderRecord\<close> occupies
  exactly \<open>FILE_HEADER_LENGTH = 4096\<close> bytes on disk, the two \<open>u32\<close> length prefixes
  included. It fails for the freshly constructed bag: the record occupies 4104 bytes.
\<close>

theorem C3_counterexample:
  "fpos (bag_file (writeFileHeaderRecord Bag_ctor)) = 4104 \<and>
   length (contents (bag_file (writeFileHeaderRecord Bag_ctor))) = 4104 \<and>
   length (contents (bag_file (writeFileHeaderRecord Bag_ctor))) \<noteq> unat FILE_HEADER_LENGTH"
  unfolding writeFileHeaderRecord_bytes
  by (simp add: Bag_write_def file_write_def length_u32_bytes length_toHeaderString
        Bag_ctor_def write_at_def)

text \<open>
  C3 (amended). For every state of the writer (with the file in raw write mode), the
  FILE_HEADER record written by \<open>writeFileHeaderRecord\<close> is the \<open>u32\<close> header length
  70, the 70 header bytes, the \<open>u32\<close> data length 4026 and 4026 spaces: header bytes and
  padding together are \<open>FILE_HEADER_LENGTH = 4096\<close> bytes, and with the two length
  prefixes the record occupies 4104 bytes on disk, whatever the state.
\<close>

theorem C3_file_header_record_length:
  assumes "write_mode (bag_file b) = CNone"
  shows "fpos (bag_file (writeFileHeaderRecord b)) = fpos (bag_file b) + 4104 \<and>
         take 4104 (drop (fpos (bag_file b)) (contents (bag_file (writeFileHeaderRecord b)))) =
           u32_bytes 70 @
           Header_write [(CHUNK_COUNT_FIELD_NAME, toHeaderString_u32 (word_of_nat (length (chunk_infos b)))),
                      (INDEX_POS_FIELD_NAME, toHeaderString_u64 (word_of_nat (index_data_pos b))),
                      (OP_FIELD_NAME, toHeaderString_u8 OP_FILE_HEADER),
                      (TOPIC_COUNT_FIELD_NAME, toHeaderString_u32 (word_of_nat (length (topic_infos b))))] @
           u32_bytes 4026 @ replicate 4026 CHR '' '' \<and>
         length (Header_write [(CHUNK_COUNT_FIELD_NAME, toHeaderString_u32 (word_of_nat (length (chunk_infos b)))),
                      (INDEX_POS_FIELD_NAME, toHeaderString_u64 (word_of_nat (index_data_pos b))),
                      (OP_FIELD_NAME, toHeaderString_u8 OP_FILE_HEADER),
                      (TOPIC_COUNT_FIELD_NAME, toHeaderString_u32 (word_of_nat (length (topic_infos b))))])
           + length (replicate 4026 CHR '' '') = unat FILE_HEADER_LENGTH"
  using assms unfolding writeFileHeaderRecord_bytes
  by (simp add: Bag_write_def file_write_def length_u32_bytes length_toHeaderString
        read_back_write_at')

theorem C3_file_header_record_length_witness:
  "write_mode (bag_file Bag_ctor) = CNone \<and>
   fpos (bag_file (writeFileHeaderRecord Bag_ctor)) = fpos (bag_file Bag_ctor) + 4104"
proof -
  have h: "write_mode (bag_file Bag_ctor) = CNone"
    by (simp add: Bag_ctor_def)
  show ?thesis
    using h C3_file_header_record_length [OF h] by simp
qed

text \<open>
  C6 (as stated). \<open>checkDisk\<close> disables writing below 1 GiB of free space, and a later
  call with free space back above that threshold enables it again. It fails with 2 GiB
  free after writing was disabled: the flag stays false.
\<close>

theorem C6_counterexample:
  "(1073741824 :: u64) < f_bsize \<lparr>f_bsize = 4096, f_bavail = 524288\<rparr> * f_bavail \<lparr>f_bsize = 4096, f_bavail = 524288\<rparr> \<and>
   writing_enabled (snd (checkDisk (Some \<lparr>f_bsize = 4096, f_bavail = 1000\<rparr>) Bag_ctor)) = False \<and>
   writing_enabled (snd (checkDisk (Some \<lparr>f_bsize = 4096, f_bavail = 524288\<rparr>)
      (snd (checkDisk (Some \<lparr>f_bsize = 4096, f_bavail = 1000\<rparr>) Bag_ctor)))) = False"
  by (simp add: checkDisk_def Let_def)

text \<open>
  C6 (amended). When \<open>statvfs\<close> succeeds, \<open>checkDisk\<close> sets the write-enabled flag to
  false (and returns false) whenever the free space is below 1 GiB; it leaves the bag as
  it is when the free space is at least 1 GiB and below 5 GiB; and it sets the flag to
  true when the free space is at least 5 GiB. So writing that was disabled is enabled
  again only by a call that sees at least 5 GiB free.
\<close>

theorem C6_checkDisk_thresholds:
  "(f_bsize st * f_bavail st < 1073741824 \<longrightarrow>
      checkDisk (Some st) b = (False, b\<lparr>writing_enabled := False\<rparr>)) \<and>
   (1073741824 \<le> f_bsize st * f_bavail st \<and> f_bsize st * f_bavail st < 5368709120 \<longrightarrow>
      checkDisk (Some st) b = (True, b)) \<and>
   (5368709120 \<le> f_bsize st * f_bavail st \<longrightarrow>
      checkDisk (Some st) b = (True, b\<lparr>writing_enabled := True\<rparr>))"
  using thr [of "f_bsize st * f_bavail st"]
  by (auto simp add: checkDisk_def Let_def)

theorem C6_checkDisk_thresholds_witness:
  "checkDisk (Some \<lparr>f_bsize = 4096, f_bavail = 1000\<rparr>) Bag_ctor
     = (False, Bag_ctor\<lparr>writing_enabled := False\<rparr>) \<and>
   checkDisk (Some \<lparr>f_bsize = 4096, f_bavail = 524288\<rparr>) (Bag_ctor\<lparr>writing_enabled := False\<rparr>)
     = (True, Bag_ctor\<lparr>writing_enabled := False\<rparr>) \<and>
   checkDisk (Some \<lparr>f_bsize = 4096, f_bavail = 2097152\<rparr>) (Bag_ctor\<lparr>writing_enabled := False\<rparr>)
     = (True, Bag_ctor\<lparr>writing_enabled := False, writing_enabled := True\<rparr>)"
  using C6_checkDisk_thresholds [of "\<lparr>f_bsize = 4096, f_bavail = 1000\<rparr>" Bag_ctor]
    C6_checkDisk_thresholds [of "\<lparr>f_bsize = 4096, f_bavail = 524288\<rparr>" "Bag_ctor\<lparr>writing_enabled := False\<rparr>"]
    C6_checkDisk_thresholds [of "\<lparr>f_bsize = 4096, f_bavail = 2097152\<rparr>" "Bag_ctor\<lparr>writing_enabled := False\<rparr>"]
  by simp

text \<open>
  C5. Opening a v1.03 bag for reading whose FILE_HEADER carries \<open>index_pos = 0\<close> fails.
  The code on the file that \<open>openWrite\<close> leaves on disk before anything else is written
  (the version line and a FILE_HEADER with \<open>index_pos = 0\<close>, no topics, no chunks):
  \<open>openRead\<close> returns true, with empty tables. No reader checks \<open>index_pos\<close>.
\<close>

theorem C5_openRead_unfinished_file:
  "\<exists>b'. openRead 24 (\<lambda>b. None) (contents (bag_file (snd (openWrite None Bag_ctor)))) Bag_ctor
          = Some (True, b')
        \<and> index_data_pos b' = 0 \<and> topic_infos b' = [] \<and> chunk_infos b' = []"
proof -
  define H where "H = [(CHUNK_COUNT_FIELD_NAME, toHeaderString_u32 0),
             (INDEX_POS_FIELD_NAME, toHeaderString_u64 0),
             (OP_FIELD_NAME, toHeaderString_u8 OP_FILE_HEADER),
             (TOPIC_COUNT_FIELD_NAME, toHeaderString_u32 0)]"
  define hdr where "hdr = Header_write H"
  define rec where "rec = u32_bytes 70 @ hdr @ u32_bytes 4026 @ replicate 4026 CHR '' ''"
  define b1 where "b1 = Bag_ctor\<lparr>bag_file := \<lparr>contents = ''#ROSBAG V1.3'' @ [CHR 0x0A] @ rec, fpos = 13,
                                 write_mode = CNone, stage = []\<rparr>,
                   file_header_pos := 13, bag_version := 103\<rparr>"
  have fc: "contents (bag_file (snd (openWrite None Bag_ctor))) = ''#ROSBAG V1.3'' @ [CHR 0x0A] @ rec"
    unfolding unfinished_file_contents rec_def hdr_def H_def by simp
  have parse: "Header_parse hdr = Some H"
    unfolding hdr_def H_def by (rule FileHeader_parse)
  have hl: "unat (70 :: u32) = length hdr"
    unfolding hdr_def H_def by (simp add: length_u32_bytes length_toHeaderString)
  have p1: "pending b1 = u32_bytes 70 @ hdr @ u32_bytes 4026 @ replicate 4026 CHR '' ''"
    by (simp add: pending_def b1_def rec_def)
  note rh = readHeader_pending [OF p1 hl parse]
  define b2 where "b2 = Bag_seek_cur (8 + length hdr) b1"
  define b3 where "b3 = Bag_seek_cur (unat (4026 :: u32))
      (b2\<lparr>index_data_pos := 0, topic_count := 0, chunk_count := 0\<rparr>)"
  have v: "bag_version b2 = 103"
    by (simp add: b2_def Bag_seek_cur_def b1_def)
  have look: "map_of H OP_FIELD_NAME = Some (toHeaderString_u8 OP_FILE_HEADER)"
    "map_of H INDEX_POS_FIELD_NAME = Some (toHeaderString_u64 0)"
    "map_of H TOPIC_COUNT_FIELD_NAME = Some (toHeaderString_u32 0)"
    "map_of H CHUNK_COUNT_FIELD_NAME = Some (toHeaderString_u32 0)"
    by (simp_all add: H_def)
  have fh: "readFileHeaderRecord b1 = Some (True, b3)"
    by (simp add: readFileHeaderRecord_def rh(1) isOp_def
          readField_u8_toHeaderString [OF look(1)] readField_u64_toHeaderString [OF look(2)]
          readField_u32_toHeaderString [OF look(3)] readField_u32_toHeaderString [OF look(4)]
          v [unfolded b2_def] Let_def b3_def b2_def)
  have tc: "topic_count b3 = 0" "chunk_count b3 = 0" "index_data_pos b3 = 0"
    "chunk_infos b3 = []" "topic_infos b3 = []"
    by (simp_all add: b3_def b2_def b1_def Bag_seek_cur_def Bag_ctor_def)
  have s103: "startReadingVersion103 24 b1 = Some (True, Bag_seek 0 b3)"
    by (simp add: startReadingVersion103_def fh tc Bag_seek_def)
  have v1: "bag_version b1 = 103"
    by (simp add: b1_def)
  have "openRead 24 (\<lambda>b. None) (''#ROSBAG V1.3'' @ [CHR 0x0A] @ rec) Bag_ctor = Some (True, Bag_seek 0 b3)"
    unfolding openRead_def readVersion_current b1_def [symmetric]
    by (simp add: v1 s103)
  moreover have "index_data_pos (Bag_seek 0 b3) = 0" "topic_infos (Bag_seek 0 b3) = []"
    "chunk_infos (Bag_seek 0 b3) = []"
    using tc by (simp_all add: Bag_seek_def)
  ultimately show ?thesis
    unfolding fc by blast
qed

text \<open>
  C9. \<open>getMessages(start_time, end_time)\<close> returns exactly the index entries, over all
  topics that have a \<open>TopicInfo\<close> and a topic index, whose time \<open>t\<close> satisfies
  \<open>start_time \<le> t\<close> and \<open>t \<le> end_time\<close>: the result is the concatenation, in the order
  of \<open>topic_infos_\<close>, of each topic's index filtered by the inclusive time range, and a
  message is in the result exactly if it is such an entry of such a topic.
\<close>

theorem C9_getMessages_inclusive_filter:
  "getMessages b start_time end_time =
     concat (map (\<lambda>(topic, info).
        case map_of (topic_indexes b) topic of
          None \<Rightarrow> []
        | Some idx \<Rightarrow> map (\<lambda>x. \<lparr>mi_topic_info = info, mi_index_entry = x\<rparr>)
              (filter (\<lambda>x. Time_ge (ie_time x) start_time \<and> Time_le (ie_time x) end_time) idx))
       (topic_infos b)) \<and>
   (m \<in> set (getMessages b start_time end_time) \<longleftrightarrow>
      (\<exists>topic idx. (topic, mi_topic_info m) \<in> set (topic_infos b) \<and>
          map_of (topic_indexes b) topic = Some idx \<and>
          mi_index_entry m \<in> set idx \<and>
          Time_ge (ie_time (mi_index_entry m)) start_time \<and>
          Time_le (ie_time (mi_index_entry m)) end_time))"
proof
  show eq: "getMessages b start_time end_time =
     concat (map (\<lambda>(topic, info).
        case map_of (topic_indexes b) topic of
          None \<Rightarrow> []
        | Some idx \<Rightarrow> map (\<lambda>x. \<lparr>mi_topic_info = info, mi_index_entry = x\<rparr>)
              (filter (\<lambda>x. Time_ge (ie_time x) start_time \<and> Time_le (ie_time x) end_time) idx))
       (topic_infos b))"
    by (simp add: getMessages_def getMessages_topics_eq)
  show "m \<in> set (getMessages b start_time end_time) \<longleftrightarrow>
      (\<exists>topic idx. (topic, mi_topic_info m) \<in> set (topic_infos b) \<and>
          map_of (topic_indexes b) topic = Some idx \<and>
          mi_index_entry m \<in> set idx \<and>
          Time_ge (ie_time (mi_index_entry m)) start_time \<and>
          Time_le (ie_time (mi_index_entry m)) end_time)"
  proof
    assume "m \<in> set (getMessages b start_time end_time)"
    then obtain topic info where p: "(topic, info) \<in> set (topic_infos b)"
      and m: "m \<in> set (case map_of (topic_indexes b) topic of
          None \<Rightarrow> []
        | Some idx \<Rightarrow> map (\<lambda>x. \<lparr>mi_topic_info = info, mi_index_entry = x\<rparr>)
              (filter (\<lambda>x. Time_ge (ie_time x) start_time \<and> Time_le (ie_time x) end_time) idx))"
      unfolding eq by auto
    from m obtain idx where idx: "map_of (topic_indexes b) topic = Some idx"
      by (cases "map_of (topic_indexes b) topic") auto
    from m idx have "mi_topic_info m = info" "mi_index_entry m \<in> set idx"
      "Time_ge (ie_time (mi_index_entry m)) start_time"
      "Time_le (ie_time (mi_index_entry m)) end_time"
      by auto
    with p idx show "\<exists>topic idx. (topic, mi_topic_info m) \<in> set (topic_infos b) \<and>
          map_of (topic_indexes b) topic = Some idx \<and>
          mi_index_entry m \<in> set idx \<and>
          Time_ge (ie_time (mi_index_entry m)) start_time \<and>
          Time_le (ie_time (mi_index_entry m)) end_time"
      by blast
  next
    assume "\<exists>topic idx. (topic, mi_topic_info m) \<in> set (topic_infos b) \<and>
          map_of (topic_indexes b) topic = Some idx \<and>
          mi_index_entry m \<in> set idx \<and>
          Time_ge (ie_time (mi_index_entry m)) start_time \<and>
          Time_le (ie_time (mi_index_entry m)) end_time"
    then obtain topic idx where p: "(topic, mi_topic_info m) \<in> set (topic_infos b)"
      and idx: "map_of (topic_indexes b) topic = Some idx"
      and e: "mi_index_entry m \<in> set idx" "Time_ge (ie_time (mi_index_entry m)) start_time"
        "Time_le (ie_time (mi_index_entry m)) end_time"
      by blast
    have "m = \<lparr>mi_topic_info = mi_topic_info m, mi_index_entry = mi_index_entry m\<rparr>"
      by simp
    with e have "m \<in> set (map (\<lambda>x. \<lparr>mi_topic_info = mi_topic_info m, mi_index_entry = x\<rparr>)
              (filter (\<lambda>x. Time_ge (ie_time x) start_time \<and> Time_le (ie_time x) end_time) idx))"
      by (metis (mono_tags, lifting) image_eqI list.set_map mem_Collect_eq set_filter)
    with p idx show "m \<in> set (getMessages b start_time end_time)"
      unfolding eq by (auto intro!: bexI [of _ "(topic, mi_topic_info m)"])
  qed
qed

text \<open>
  C10. When \<open>readMessageDefinitionRecord\<close> reads a MSG_DEF record (a header with opcode
  MSG_DEF and the fields topic, md5 of 32 bytes, type and def) for a topic already present
  in \<open>topic_infos_\<close>, it returns true and leaves \<open>topic_infos_\<close> as it was.
\<close>

theorem C10_duplicate_definition_ignored:
  assumes "readHeader b = Some (Some (flds, data_size), b1)"
    and "isOp flds OP_MSG_DEF"
    and "readField_string flds TOPIC_FIELD_NAME = Some topic"
    and "readField_range flds MD5_FIELD_NAME 32 32 = Some md5"
    and "readField_string flds TYPE_FIELD_NAME = Some dtype"
    and "readField_range flds DEF_FIELD_NAME 0 UINT_MAX = Some message_definition"
    and "map_of (topic_infos b) topic = Some info"
  shows "readMessageDefinitionRecord b = Some (True, b1) \<and> topic_infos b1 = topic_infos b"
  using assms readHeader_frame [OF assms(1)]
  by (simp add: readMessageDefinitionRecord_def)

theorem C10_duplicate_definition_ignored_witness:
  "readMessageDefinitionRecord example_def_bag =
     Some (True, Bag_seek_cur (8 + length (Header_write example_def_fields)) example_def_bag) \<and>
   topic_infos (Bag_seek_cur (8 + length (Header_write example_def_fields)) example_def_bag) =
     [(''/a'', example_info)]"
proof -
  have p: "pending example_def_bag =
      u32_bytes (word_of_nat (length (Header_write example_def_fields)))
        @ Header_write example_def_fields @ u32_bytes 0 @ []"
    by (simp add: pending_def example_def_bag_def)
  have len: "length (Header_write example_def_fields) = 87"
    by (simp add: example_def_fields_def length_u32_bytes length_toHeaderString)
  have hl: "unat (word_of_nat (length (Header_write example_def_fields)) :: u32)
      = length (Header_write example_def_fields)"
    unfolding len by simp
  have parse: "Header_parse (Header_write example_def_fields) = Some example_def_fields"
    by (rule Header_parse_write)
       (simp_all add: example_def_fields_def wf_field_def length_toHeaderString)
  have look: "map_of example_def_fields OP_FIELD_NAME = Some (toHeaderString_u8 OP_MSG_DEF)"
    by (simp add: example_def_fields_def)
  have h1: "isOp example_def_fields OP_MSG_DEF"
    by (simp add: isOp_def readField_u8_toHeaderString [OF look])
  have h2: "readField_string example_def_fields TOPIC_FIELD_NAME = Some ''/a''"
    by (simp add: readField_string_def readField_range_def checkField_def example_def_fields_def
          UINT_MAX_def)
  have h3: "readField_range example_def_fields MD5_FIELD_NAME 32 32 = Some (replicate 32 CHR ''1'')"
    by (simp add: readField_range_def checkField_def example_def_fields_def)
  have h4: "readField_string example_def_fields TYPE_FIELD_NAME = Some ''pkg/B''"
    by (simp add: readField_string_def readField_range_def checkField_def example_def_fields_def
          UINT_MAX_def)
  have h5: "readField_range example_def_fields DEF_FIELD_NAME 0 UINT_MAX = Some ''msg B''"
    by (simp add: readField_range_def checkField_def example_def_fields_def UINT_MAX_def)
  have h6: "map_of (topic_infos example_def_bag) ''/a'' = Some example_info"
    by (simp add: example_def_bag_def)
  have ti: "topic_infos example_def_bag = [(''/a'', example_info)]"
    by (simp add: example_def_bag_def)
  show ?thesis
    using C10_duplicate_definition_ignored
      [OF readHeader_pending(1) [OF p hl parse] h1 h2 h3 h4 h5 h6]
    by (simp only: ti)
qed

text \<open>
  C2. The payload read back by random access is the same whether the bag was written with
  compression None, BZ2 or ZLIB; in particular \<open>readMessageDataRecord103\<close> recovers the
  message bytes from a ZLIB chunk as it does from a BZ2 or an uncompressed chunk. The code
  on the example chunk: from the BZ2 chunk and from the uncompressed chunk it returns true
  with the payload in \<open>record_buffer_\<close>; on the ZLIB chunk it never decompresses
  (\<open>decompressChunk\<close> is called for \<open>bz2\<close> only), takes the branch for uncompressed
  chunks, reads a header length out of the compressed bytes and runs past the end of the
  file.
\<close>

theorem C2_zlib_chunk_not_decompressed:
  "(\<exists>b'. readMessageDataRecord103 toy_codec ''/a'' 13 0 (example_reader BZ2) = Some (True, b')
         \<and> record_buffer b' = example_payload) \<and>
   (\<exists>b'. readMessageDataRecord103 toy_codec ''/a'' 13 0 (example_reader CNone) = Some (True, b')
         \<and> record_buffer b' = example_payload) \<and>
   readMessageDataRecord103 toy_codec ''/a'' 13 0 (example_reader ZLIB) = None"
  using example_read_bz2 example_read_none example_read_zlib by simp

end
